theory Spec2Isabelle
  imports Main "HOL-Library.Sublist"
begin

section \<open>Python strings\<close>

text \<open>
  Python \<^verbatim>\<open>str\<close> values are modelled as \<^typ>\<open>string\<close>. The operations below are the
  ones the sources use: the substring test \<^verbatim>\<open>a in b\<close>, \<^verbatim>\<open>str.split(sep)\<close>,
  \<^verbatim>\<open>str.lstrip(chars)\<close>, \<^verbatim>\<open>str.replace(old, new)\<close> and the decimal text of a
  non-negative integer.
\<close>

fun contains :: "string \<Rightarrow> string \<Rightarrow> bool" where
  "contains sub [] = (sub = [])"
| "contains sub (c # cs) = (prefix sub (c # cs) \<or> contains sub cs)"

text \<open>
  \<^verbatim>\<open>s.split(sep)\<close> scans from the left and cuts at every occurrence of \<^verbatim>\<open>sep\<close> that does
  not overlap the previous cut. The accumulator holds the current piece, reversed.
  Python raises ValueError for an empty separator; the sources only split at the
  non-empty literals \<^verbatim>\<open>"Volumes/"\<close>, \<^verbatim>\<open>"/"\<close> and \<^verbatim>\<open>"@"\<close>, and the model never cuts when
  \<open>sep = []\<close>.
\<close>

function split_from :: "string \<Rightarrow> string \<Rightarrow> string \<Rightarrow> string list" where
  "split_from sep acc [] = [rev acc]"
| "split_from sep acc (c # cs) =
     (if sep \<noteq> [] \<and> prefix sep (c # cs)
      then rev acc # split_from sep [] (drop (length sep) (c # cs))
      else split_from sep (c # acc) cs)"
  by pat_completeness auto
termination
  by (relation "measure (\<lambda>(sep, acc, s). length s)") (auto simp: Suc_le_eq)

definition split :: "string \<Rightarrow> string \<Rightarrow> string list" where
  "split s sep = split_from sep [] s"

definition lstrip :: "string \<Rightarrow> string \<Rightarrow> string" where
  "lstrip s chars = dropWhile (\<lambda>c. c \<in> set chars) s"

text \<open>
  \<^verbatim>\<open>s.replace(old, '')\<close>: every non-overlapping occurrence of \<^verbatim>\<open>old\<close>, found from the left,
  is deleted. With an empty \<^verbatim>\<open>old\<close> Python inserts the (empty) replacement between the
  characters, which leaves the string as it is.
\<close>

function remove_all :: "string \<Rightarrow> string \<Rightarrow> string" where
  "remove_all old [] = []"
| "remove_all old (c # cs) =
     (if old \<noteq> [] \<and> prefix old (c # cs)
      then remove_all old (drop (length old) (c # cs))
      else c # remove_all old cs)"
  by pat_completeness auto
termination
  by (relation "measure (\<lambda>(old, s). length s)") (auto simp: Suc_le_eq)

definition digit_char :: "nat \<Rightarrow> char" where
  "digit_char n = ''0123456789'' ! (n mod 10)"

function str_nat :: "nat \<Rightarrow> string" where
  "str_nat n = (if n < 10 then [digit_char n] else str_nat (n div 10) @ [digit_char n])"
  by pat_completeness auto
termination
  by (relation "measure id") auto

definition str_int :: "int \<Rightarrow> string" where
  "str_int i = (if i < 0 then CHR ''-'' # str_nat (nat (- i)) else str_nat (nat i))"

section \<open>Exceptions\<close>

text \<open>
  Every raise of the sources is a value. \<open>ClientError code text\<close> is botocore's
  ClientError with \<^verbatim>\<open>response['Error']['Code']\<close> and the text \<^verbatim>\<open>str(ex)\<close>;
  \<open>Exception msg\<close> is the bare \<^verbatim>\<open>Exception(msg)\<close> the sources raise themselves;
  \<open>OtherError\<close> stands for any exception of a library that is not a ClientError
  (a connection failure, for instance).
\<close>

datatype exn =
    ClientError string string
  | Exception string
  | TypeError string
  | KeyError string
  | IndexError
  | NoSectionError string
  | NoOptionError string string
  | OSError string
  | OtherError string

section \<open>UTC time stamps\<close>

record datetime =
  year :: nat
  month :: nat
  day :: nat
  hour :: nat
  minute :: nat
  second :: nat
  microsecond :: nat

definition pad2 :: "nat \<Rightarrow> string" where
  "pad2 n = (if n < 10 then CHR ''0'' # str_nat n else str_nat n)"

text \<open>
  \<^verbatim>\<open>strftime("%Y%m%dT%H%M%SZ")\<close>. The year is written in decimal (four digits for the
  years 1000 to 9999 that \<^verbatim>\<open>utcnow()\<close> gives), every other field with two digits.
\<close>

definition strftime :: "datetime \<Rightarrow> string" where
  "strftime t = str_nat (year t) @ pad2 (month t) @ pad2 (day t) @ ''T'' @
                pad2 (hour t) @ pad2 (minute t) @ pad2 (second t) @ ''Z''"

definition is_leap :: "nat \<Rightarrow> bool" where
  "is_leap y = (y mod 4 = 0 \<and> (y mod 100 \<noteq> 0 \<or> y mod 400 = 0))"

definition days_in_month :: "nat \<Rightarrow> nat \<Rightarrow> nat" where
  "days_in_month y m =
     (if m = 2 then (if is_leap y then 29 else 28)
      else if m = 4 \<or> m = 6 \<or> m = 9 \<or> m = 11 then 30 else 31)"

definition next_day :: "datetime \<Rightarrow> datetime" where
  "next_day t =
     (if day t < days_in_month (year t) (month t) then t\<lparr>day := day t + 1\<rparr>
      else if month t < 12 then t\<lparr>month := month t + 1, day := 1\<rparr>
      else t\<lparr>year := year t + 1, month := 1, day := 1\<rparr>)"

text \<open>\<^verbatim>\<open>t + timedelta(days=n)\<close>, for a date of the proleptic Gregorian calendar.\<close>

fun add_days :: "nat \<Rightarrow> datetime \<Rightarrow> datetime" where
  "add_days 0 t = t"
| "add_days (Suc n) t = add_days n (next_day t)"

section \<open>config.py: the configuration helper\<close>

text \<open>
  \<^verbatim>\<open>Config.__call__(section, option)\<close> is \<^verbatim>\<open>ConfigParser.get\<close>: the parsed .ini file is a
  map from section names to maps from option names to values, and a missing section or
  option raises.
\<close>

type_synonym config_parser = "string \<rightharpoonup> (string \<rightharpoonup> string)"

definition config_call :: "config_parser \<Rightarrow> string \<Rightarrow> string \<Rightarrow> exn + string" where
  "config_call parser sec opt =
     (case parser sec of
        None \<Rightarrow> Inl (NoSectionError sec)
      | Some options \<Rightarrow>
          (case options opt of
             None \<Rightarrow> Inl (NoOptionError opt sec)
           | Some v \<Rightarrow> Inr v))"

text \<open>
  \<^verbatim>\<open>get_username\<close>: the argument is what \<^verbatim>\<open>sts.get_caller_identity()['Arn']\<close> gives, or
  the exception the call raises. A ClientError is caught and gives \<^verbatim>\<open>"Unknown"\<close>.
\<close>

definition get_username :: "exn + string \<Rightarrow> exn + string" where
  "get_username caller_arn =
     (case caller_arn of
        Inl (ClientError code msg) \<Rightarrow> Inr ''Unknown''
      | Inl e \<Rightarrow> Inl e
      | Inr arn \<Rightarrow> Inr (hd (split (last (split arn ''/'')) ''@'')))"

subsection \<open>get_tags\<close>

record tag =
  Key :: string
  Value :: string

definition ascii_lowercase :: string where
  "ascii_lowercase = ''abcdefghijklmnopqrstuvwxyz''"

definition ascii_uppercase :: string where
  "ascii_uppercase = ''ABCDEFGHIJKLMNOPQRSTUVWXYZ''"

definition ascii_letters :: string where
  "ascii_letters = ascii_lowercase @ ascii_uppercase"

definition digits :: string where
  "digits = ''0123456789''"

definition allowed_chars :: "string list" where
  "allowed_chars = [''+'', ''-'', ''='', ''.'', ''_'', '':'', ''/'', ''@'']"

text \<open>\<^verbatim>\<open>allowed_chars + list(string.ascii_letters) + list(string.digits)\<close>: a list of
  one-character strings.\<close>

definition allowed :: "string list" where
  "allowed = allowed_chars @ map (\<lambda>c. [c]) ascii_letters @ map (\<lambda>c. [c]) digits"

text \<open>
  The test of the loop body, \<^verbatim>\<open>any(char in tag['Value'] for char in allowed)\<close>: some
  allowed character occurs in the value.
\<close>

definition tag_value_ok :: "tag \<Rightarrow> bool" where
  "tag_value_ok t = list_ex (\<lambda>char. contains char (Value t)) allowed"

text \<open>
  The checking loop. \<^verbatim>\<open>raise (msg)\<close> raises a \<^verbatim>\<open>str\<close>, which Python turns into a
  TypeError; the message built for the log is not carried by it.
\<close>

fun check_tags :: "tag list \<Rightarrow> exn + unit" where
  "check_tags [] = Inr ()"
| "check_tags (t # ts) =
     (if \<not> tag_value_ok t then Inl (TypeError ''exceptions must derive from BaseException'')
      else check_tags ts)"

text \<open>
  \<^verbatim>\<open>Config.get_tags\<close>. Its inputs besides the description are the parsed configuration,
  the caller identity that \<^verbatim>\<open>get_username\<close> reads and \<^verbatim>\<open>datetime.utcnow()\<close>. The calls
  to the logger do not change the control flow and are left out.
\<close>

definition get_tags :: "config_parser \<Rightarrow> exn + string \<Rightarrow> datetime \<Rightarrow> string \<Rightarrow> exn + tag list" where
  "get_tags parser caller_arn utcnow description =
     (case config_call parser ''tags'' ''organization'' of Inl e \<Rightarrow> Inl e | Inr organization \<Rightarrow>
      case config_call parser ''tags'' ''project_number'' of Inl e \<Rightarrow> Inl e | Inr project_number \<Rightarrow>
      case config_call parser ''tags'' ''stage'' of Inl e \<Rightarrow> Inl e | Inr stage \<Rightarrow>
      case config_call parser ''tags'' ''application'' of Inl e \<Rightarrow> Inl e | Inr application \<Rightarrow>
      case get_username caller_arn of Inl e \<Rightarrow> Inl e | Inr user_name \<Rightarrow>
        (let deletion_date = strftime (add_days 90 utcnow);
             tag_dict =
               [\<lparr>Key = organization @ '':project-number'', Value = project_number\<rparr>,
                \<lparr>Key = organization @ '':owner'', Value = user_name\<rparr>,
                \<lparr>Key = organization @ '':description'', Value = description\<rparr>,
                \<lparr>Key = organization @ '':stage'', Value = stage\<rparr>,
                \<lparr>Key = organization @ '':application'', Value = application\<rparr>,
                \<lparr>Key = organization @ '':deletion-date'', Value = deletion_date\<rparr>,
                \<lparr>Key = organization @ '':created-by'', Value = user_name\<rparr>]
         in case check_tags tag_dict of Inl e \<Rightarrow> Inl e | Inr u \<Rightarrow> Inr tag_dict))"

subsection \<open>get_resources\<close>

record stack_resource =
  ResourceType :: string
  PhysicalResourceId :: string

record env_var =
  env_name :: string
  env_value :: string

text \<open>
  The two services \<^verbatim>\<open>get_resources\<close> calls. \<open>list_stack_resources\<close> gives the
  \<^verbatim>\<open>StackResourceSummaries\<close> of a stack; \<open>describe_task_definition\<close> gives, for a task
  definition, the \<^verbatim>\<open>environment\<close> list of each of its \<^verbatim>\<open>containerDefinitions\<close>. Either
  may raise.
\<close>

record cloud =
  list_stack_resources :: "string \<Rightarrow> exn + stack_resource list"
  describe_task_definition :: "string \<Rightarrow> exn + env_var list list"

type_synonym resources = "string \<rightharpoonup> string"

definition key :: "string list" where
  "key = [''PROCESSOR'', ''TRACK_QUEUE'', ''VIDEO_QUEUE'', ''DEAD_QUEUE'', ''TRACK_BUCKET'',
          ''VIDEO_BUCKET'']"

text \<open>\<^verbatim>\<open>for k in key: if k in e['name']: resources[k] = e['value']\<close>\<close>

fun scan_keys :: "string list \<Rightarrow> env_var \<Rightarrow> resources \<Rightarrow> resources" where
  "scan_keys [] e res = res"
| "scan_keys (k # ks) e res =
     scan_keys ks e (if contains k (env_name e) then res(k \<mapsto> env_value e) else res)"

text \<open>\<^verbatim>\<open>for e in environment: ...\<close>\<close>

fun scan_environment :: "env_var list \<Rightarrow> resources \<Rightarrow> resources" where
  "scan_environment [] res = res"
| "scan_environment (e # es) res = scan_environment es (scan_keys key e res)"

text \<open>
  The loop over the stack's resources. The first task definition is described, the
  environment of its first container is scanned, and the loop ends (\<^verbatim>\<open>break\<close>); an
  autoscaling group met before that is recorded under \<^verbatim>\<open>'ASG'\<close>.
\<close>

fun scan_stack :: "cloud \<Rightarrow> stack_resource list \<Rightarrow> resources \<Rightarrow> exn + resources" where
  "scan_stack c [] res = Inr res"
| "scan_stack c (r # rs) res =
     (if contains ''AWS::ECS::TaskDefinition'' (ResourceType r) then
        (case describe_task_definition c (PhysicalResourceId r) of
           Inl e \<Rightarrow> Inl e
         | Inr [] \<Rightarrow> Inl IndexError
         | Inr (environment # others) \<Rightarrow> Inr (scan_environment environment res))
      else if contains ''AWS::AutoScaling::AutoScalingGroup'' (ResourceType r) then
        scan_stack c rs (res(''ASG'' \<mapsto> PhysicalResourceId r))
      else scan_stack c rs res)"

datatype level = CRITICAL | ERROR | WARNING | INFO | DEBUG

type_synonym log = "(level \<times> string) list"

text \<open>
  The body of the \<^verbatim>\<open>try\<close> block of \<^verbatim>\<open>Config.get_resources\<close>: the dictionary it
  returns, or the exception one of the two service calls raised.
\<close>

definition stack_lookup :: "cloud \<Rightarrow> string \<Rightarrow> exn + resources" where
  "stack_lookup c stack_name =
     (case list_stack_resources c stack_name of
        Inl e \<Rightarrow> Inl e
      | Inr summaries \<Rightarrow> scan_stack c summaries [''CLUSTER'' \<mapsto> stack_name])"

text \<open>
  \<^verbatim>\<open>Config.get_resources\<close>: the lines written to the logger, and the outcome. The
  outcome is an exception, or the returned value: \<open>Some\<close> of the dictionary, or \<open>None\<close>
  (Python's \<^verbatim>\<open>None\<close>, the "no resources" result). Only a ClientError is caught;
  \<^verbatim>\<open>exception(ex)\<close> logs its text as an error.
\<close>

definition get_resources :: "cloud \<Rightarrow> string \<Rightarrow> log \<times> (exn + resources option)" where
  "get_resources c stack_name =
     (case stack_lookup c stack_name of
        Inr res \<Rightarrow> ([], Inr (Some res))
      | Inl (ClientError code msg) \<Rightarrow>
          (if contains ''AccessDenied'' code then
             ([(ERROR, msg),
               (CRITICAL, ''Access denied; verify you are using the correct AWS credentials'')],
              Inl (Exception ''Access denied''))
           else if contains ''ExpiredToken'' code then
             ([(ERROR, msg),
               (CRITICAL, ''Token expired; you need to re-authenticate your AWS credentials'')],
              Inl (Exception ''Token expired''))
           else ([(ERROR, msg)], Inr None))
      | Inl e \<Rightarrow> ([], Inl e))"

section \<open>upload_tag.py: upload and tagging\<close>

subsection \<open>Local paths and URLs\<close>

text \<open>
  A \<^verbatim>\<open>pathlib.Path\<close> on a POSIX system: whether it is absolute, and its components.
  \<open>as_posix\<close>, \<open>parent\<close> and \<open>path_name\<close> are \<^verbatim>\<open>as_posix()\<close>, \<^verbatim>\<open>.parent\<close> and \<^verbatim>\<open>.name\<close>.
\<close>

datatype posix_path = PosixPath bool "string list"

fun join :: "string \<Rightarrow> string list \<Rightarrow> string" where
  "join sep [] = []"
| "join sep [x] = x"
| "join sep (x # y # ys) = x @ sep @ join sep (y # ys)"

fun as_posix :: "posix_path \<Rightarrow> string" where
  "as_posix (PosixPath absolute ns) =
     (if absolute then ''/'' @ join ''/'' ns
      else if ns = [] then ''.'' else join ''/'' ns)"

fun parent :: "posix_path \<Rightarrow> posix_path" where
  "parent (PosixPath absolute ns) = PosixPath absolute (butlast ns)"

fun path_name :: "posix_path \<Rightarrow> string" where
  "path_name (PosixPath absolute ns) = (if ns = [] then [] else last ns)"

text \<open>The two fields of a \<^verbatim>\<open>urlparse\<close> result that the sources read.\<close>

record s3_url =
  netloc :: string
  path :: string

text \<open>
  \<^verbatim>\<open>urlparse\<close> of a text that starts with \<^verbatim>\<open>s3://\<close>: the network location runs to the
  first \<^verbatim>\<open>/\<close>, \<^verbatim>\<open>?\<close> or \<^verbatim>\<open>#\<close>, the path from there to the first \<^verbatim>\<open>?\<close> or \<^verbatim>\<open>#\<close>.
\<close>

definition urlparse_s3 :: "string \<Rightarrow> s3_url" where
  "urlparse_s3 url =
     (let rest = drop 5 url;
          after = dropWhile (\<lambda>c. c \<notin> set ''/?#'') rest
      in \<lparr>netloc = takeWhile (\<lambda>c. c \<notin> set ''/?#'') rest,
          path = takeWhile (\<lambda>c. c \<notin> set ''?#'') after\<rparr>)"

subsection \<open>The object store and the local files\<close>

text \<open>
  The state the upload works on. \<open>objects\<close> is the object store: for a bucket and a
  key, the bytes and the tag set of the object, if there is one. \<open>faults\<close> is what the
  service will answer to the coming calls, in order: \<open>Some e\<close> makes the next call raise
  \<open>e\<close>, \<open>None\<close> (or an exhausted list) lets it go through. \<open>calls\<close> records, in order, the
  calls made to the store and the lines printed. The local files are a function from
  the text of a path to what \<^verbatim>\<open>open(path, "rb")\<close> gives: the bytes of the file, or the
  exception it raises.
\<close>

record s3_object =
  content :: string
  tagging :: "tag list"

datatype upload_event =
    HeadObject string string
  | UploadFileobj string string
  | PutObjectTagging string string "tag list"
  | Print string

record world =
  objects :: "string \<times> string \<rightharpoonup> s3_object"
  faults :: "exn option list"
  calls :: "upload_event list"

type_synonym files = "string \<Rightarrow> exn + string"

definition next_fault :: "world \<Rightarrow> exn option \<times> world" where
  "next_fault w = (case faults w of [] \<Rightarrow> (None, w) | f # fs \<Rightarrow> (f, w\<lparr>faults := fs\<rparr>))"

definition record_call :: "upload_event \<Rightarrow> world \<Rightarrow> world" where
  "record_call ev w = w\<lparr>calls := calls w @ [ev]\<rparr>"

text \<open>
  \<^verbatim>\<open>s3_resource.Object(bucket, key).load()\<close>: a metadata request that raises a
  ClientError with code \<^verbatim>\<open>"404"\<close> when there is no such object.
\<close>

definition s3_load :: "string \<Rightarrow> string \<Rightarrow> world \<Rightarrow> exn option \<times> world" where
  "s3_load bucket k w =
     (case next_fault (record_call (HeadObject bucket k) w) of
        (Some e, w') \<Rightarrow> (Some e, w')
      | (None, w') \<Rightarrow>
          (if objects w' (bucket, k) = None then (Some (ClientError ''404'' ''Not Found''), w')
           else (None, w')))"

text \<open>\<^verbatim>\<open>s3.upload_fileobj(f, bucket, key)\<close>: stores the bytes as a new object, which has
  no tags.\<close>

definition s3_upload_fileobj :: "string \<Rightarrow> string \<Rightarrow> string \<Rightarrow> world \<Rightarrow> exn option \<times> world" where
  "s3_upload_fileobj bytes bucket k w =
     (case next_fault (record_call (UploadFileobj bucket k) w) of
        (Some e, w') \<Rightarrow> (Some e, w')
      | (None, w') \<Rightarrow>
          (None, w'\<lparr>objects := (objects w')((bucket, k) \<mapsto> \<lparr>content = bytes, tagging = []\<rparr>)\<rparr>))"

text \<open>\<^verbatim>\<open>s3.put_object_tagging(Bucket, Key, Tagging={'TagSet': tags})\<close>: replaces the tag set
  of an object; there must be one.\<close>

definition s3_put_object_tagging :: "string \<Rightarrow> string \<Rightarrow> tag list \<Rightarrow> world \<Rightarrow> exn option \<times> world" where
  "s3_put_object_tagging bucket k tags w =
     (case next_fault (record_call (PutObjectTagging bucket k tags) w) of
        (Some e, w') \<Rightarrow> (Some e, w')
      | (None, w') \<Rightarrow>
          (case objects w' (bucket, k) of
             None \<Rightarrow> (Some (ClientError ''NoSuchKey'' ''The specified key does not exist.''), w')
           | Some obj \<Rightarrow> (None, w'\<lparr>objects := (objects w')((bucket, k) \<mapsto> obj\<lparr>tagging := tags\<rparr>)\<rparr>)))"

text \<open>\<^verbatim>\<open>str(error)\<close>\<close>

fun str_exn :: "exn \<Rightarrow> string" where
  "str_exn (ClientError code msg) = msg"
| "str_exn (Exception msg) = msg"
| "str_exn (TypeError msg) = msg"
| "str_exn (KeyError k) = [CHR 39] @ k @ [CHR 39]"
| "str_exn IndexError = ''list index out of range''"
| "str_exn (NoSectionError sec) = ''No section: '' @ [CHR 39] @ sec @ [CHR 39]"
| "str_exn (NoOptionError opt sec) =
     ''No option '' @ [CHR 39] @ opt @ [CHR 39] @ '' in section: '' @ [CHR 39] @ sec @ [CHR 39]"
| "str_exn (OSError msg) = msg"
| "str_exn (OtherError msg) = msg"

subsection \<open>The block shared by video_data and training_data\<close>

text \<open>
  The inner \<^verbatim>\<open>try\<close> of both functions: open the local file, print the line that
  announces the upload, and send the bytes. Whatever is raised here is caught and
  reported by a printed line (\<open>error_line\<close> gives its text); nothing is raised.
\<close>

definition uploading_line :: "posix_path \<Rightarrow> string \<Rightarrow> string \<Rightarrow> string" where
  "uploading_line v bucket target_prefix =
     ''Uploading '' @ as_posix v @ '' to s3://'' @ bucket @ ''/'' @ target_prefix @ ''...''"

definition try_upload ::
  "files \<Rightarrow> posix_path \<Rightarrow> string \<Rightarrow> string \<Rightarrow> (exn \<Rightarrow> string) \<Rightarrow> world \<Rightarrow> world" where
  "try_upload fs v bucket target_prefix error_line w =
     (case fs (as_posix v) of
        Inl e \<Rightarrow> record_call (Print (error_line e)) w
      | Inr bytes \<Rightarrow>
          (case s3_upload_fileobj bytes bucket target_prefix
                  (record_call (Print (uploading_line v bucket target_prefix)) w) of
             (Some e, w') \<Rightarrow> record_call (Print (error_line e)) w'
           | (None, w') \<Rightarrow> w'))"

text \<open>
  The body of both loops once the target key is known (lines 45 to 66 of
  \<^verbatim>\<open>video_data\<close>, lines 94 to 115 of \<^verbatim>\<open>training_data\<close>): the existence probe, the upload
  when the probe answers 404, and the tagging. The result is the exception that leaves
  the function, if any.
\<close>

definition upload_and_tag ::
  "files \<Rightarrow> posix_path \<Rightarrow> string \<Rightarrow> string \<Rightarrow> (exn \<Rightarrow> string) \<Rightarrow> string \<Rightarrow> tag list \<Rightarrow>
   world \<Rightarrow> exn option \<times> world" where
  "upload_and_tag fs v bucket target_prefix error_line found_line tags w =
     (case s3_load bucket target_prefix w of
        (Some (ClientError code msg), w') \<Rightarrow>
          (if code = ''404'' then
             s3_put_object_tagging bucket target_prefix tags
               (try_upload fs v bucket target_prefix error_line w')
           else (Some (ClientError code msg), w'))
      | (Some e, w') \<Rightarrow> (Some e, w')
      | (None, w') \<Rightarrow>
          s3_put_object_tagging bucket target_prefix tags (record_call (Print found_line) w'))"

subsection \<open>video_data\<close>

text \<open>
  \<^verbatim>\<open>prefix_path = v.parent.as_posix().split("Volumes/")[-1]\<close> and
  \<^verbatim>\<open>target_prefix = f'{input_s3.path}{prefix_path}/{v.name}'\<close>
\<close>

definition video_prefix_path :: "posix_path \<Rightarrow> string" where
  "video_prefix_path v = last (split (as_posix (parent v)) ''Volumes/'')"

definition video_target_prefix :: "s3_url \<Rightarrow> posix_path \<Rightarrow> string" where
  "video_target_prefix input_s3 v = path input_s3 @ video_prefix_path v @ ''/'' @ path_name v"

definition video_data_body :: "files \<Rightarrow> s3_url \<Rightarrow> tag list \<Rightarrow> posix_path \<Rightarrow> world \<Rightarrow> exn option \<times> world" where
  "video_data_body fs input_s3 tags v w =
     upload_and_tag fs v (netloc input_s3) (video_target_prefix input_s3 v)
       (\<lambda>e. ''error in uploading to s3'')
       (''Found s3://'' @ netloc input_s3 @ ''/'' @ video_target_prefix input_s3 v @
        '' ...skipping upload'')
       tags w"

fun video_data_loop :: "files \<Rightarrow> posix_path list \<Rightarrow> s3_url \<Rightarrow> tag list \<Rightarrow> world \<Rightarrow> exn option \<times> world" where
  "video_data_loop fs [] input_s3 tags w = (None, w)"
| "video_data_loop fs (v # vs) input_s3 tags w =
     (case video_data_body fs input_s3 tags v w of
        (Some e, w') \<Rightarrow> (Some e, w')
      | (None, w') \<Rightarrow> video_data_loop fs vs input_s3 tags w')"

definition bandwidth_hint :: string where
  "bandwidth_hint =
     ''Reduce your upload speed by running '' @ [CHR 39] @
     '' aws configure set default.s3.max_bandwidth 62MB/s'' @ [CHR 39]"

definition video_data :: "files \<Rightarrow> posix_path list \<Rightarrow> s3_url \<Rightarrow> tag list \<Rightarrow> world \<Rightarrow> exn option \<times> world" where
  "video_data fs videos input_s3 tags w =
     video_data_loop fs videos input_s3 tags (record_call (Print bandwidth_hint) w)"

subsection \<open>training_data\<close>

definition default_training_prefix :: string where
  "default_training_prefix = ''training''"

text \<open>\<^verbatim>\<open>f'{prefix_path}'\<close> for a variable that is \<^verbatim>\<open>None\<close> or a string.\<close>

definition str_opt :: "string option \<Rightarrow> string" where
  "str_opt s = (case s of None \<Rightarrow> ''None'' | Some t \<Rightarrow> t)"

text \<open>
  The head of the loop body: \<^verbatim>\<open>if not prefix_path: prefix_path = ...\<close>. Both \<^verbatim>\<open>None\<close> and
  the empty string count as unset.
\<close>

definition training_prefix_path :: "string option \<Rightarrow> posix_path \<Rightarrow> string option" where
  "training_prefix_path prefix_path d =
     (if prefix_path = None \<or> prefix_path = Some []
      then Some (lstrip (last (split (as_posix (parent d)) ''Volumes/'')) ''/'')
      else prefix_path)"

definition training_target_prefix :: "string option \<Rightarrow> posix_path \<Rightarrow> string" where
  "training_target_prefix prefix_path d =
     str_opt prefix_path @ ''/'' @ default_training_prefix @ ''/'' @ path_name d"

fun training_data_loop ::
  "files \<Rightarrow> posix_path list \<Rightarrow> s3_url \<Rightarrow> tag list \<Rightarrow> string option \<Rightarrow> world \<Rightarrow>
   exn option \<times> string option \<times> world" where
  "training_data_loop fs [] input tags prefix_path w = (None, prefix_path, w)"
| "training_data_loop fs (d # ds) input tags prefix_path w =
     (let prefix_path' = training_prefix_path prefix_path d;
          target_prefix = training_target_prefix prefix_path' d
      in case upload_and_tag fs d (netloc input) target_prefix
                (\<lambda>e. ''Error '' @ str_exn e @ '' uploading to s3'')
                (''Found s3://'' @ path input @ ''/'' @ target_prefix @ '' ...skipping upload'')
                tags w of
           (Some e, w') \<Rightarrow> (Some e, prefix_path', w')
         | (None, w') \<Rightarrow> training_data_loop fs ds input tags prefix_path' w')"

text \<open>
  \<^verbatim>\<open>np.round(size_bytes/1e6)\<close>: the quotient, rounded to the nearest whole number with
  ties to the even one. The model computes on the exact quotient; the floating-point
  quotient rounds to the same whole number for every size below \<open>2 ^ 40\<close> bytes.
\<close>

definition round_div :: "nat \<Rightarrow> nat \<Rightarrow> nat" where
  "round_div n d =
     (let q = n div d; r = n mod d
      in if 2 * r < d then q else if d < 2 * r then q + 1 else if even q then q else q + 1)"

text \<open>
  \<^verbatim>\<open>training_data\<close>. \<^verbatim>\<open>bucket.size\<close> is not among the sources; it is a parameter, which
  gives the size in bytes of what the store holds under a URL. The result is the
  exception raised, or the pair the function returns.
\<close>

definition training_data ::
  "(world \<Rightarrow> s3_url \<Rightarrow> nat) \<Rightarrow> files \<Rightarrow> posix_path list \<Rightarrow> s3_url \<Rightarrow> tag list \<Rightarrow> world \<Rightarrow>
   (exn + s3_url \<times> nat) \<times> world" where
  "training_data bucket_size fs data input tags w =
     (case training_data_loop fs data input tags None (record_call (Print bandwidth_hint) w) of
        (Some e, prefix_path, w') \<Rightarrow> (Inl e, w')
      | (None, prefix_path, w') \<Rightarrow>
          (let output = urlparse_s3 (''s3://'' @ netloc input @ ''/'' @ str_opt prefix_path @ ''/'' @
                                     default_training_prefix @ ''/'');
               size_bytes = bucket_size w' output
           in (Inr (output, round_div size_bytes 1000000), w')))"

subsection \<open>Notions used to state the properties of the upload\<close>

text \<open>
  \<open>is_404\<close>: the answer of the service is a ClientError with code \<^verbatim>\<open>"404"\<close>.
  \<open>is_upload\<close>: the event is a call of \<^verbatim>\<open>upload_fileobj\<close>, the only call that transfers
  the bytes of a file. \<open>tagged tags w (bucket, k)\<close>: the store of \<open>w\<close> holds an object under
  that bucket and key, and its tag set is \<open>tags\<close>.
\<close>

definition is_404 :: "exn option \<Rightarrow> bool" where
  "is_404 f = (case f of Some (ClientError code msg) \<Rightarrow> code = ''404'' | _ \<Rightarrow> False)"

definition is_upload :: "upload_event \<Rightarrow> bool" where
  "is_upload ev = (case ev of UploadFileobj bucket k \<Rightarrow> True | _ \<Rightarrow> False)"

definition tagged :: "tag list \<Rightarrow> world \<Rightarrow> string \<times> string \<Rightarrow> bool" where
  "tagged tags w x = (case objects w x of None \<Rightarrow> False | Some obj \<Rightarrow> tagging obj = tags)"

section \<open>process.py: job submission\<close>

subsection \<open>The job cache and the services\<close>

text \<open>
  Modelled from the spec: the module \<^verbatim>\<open>deepsea_ai.logger.job_cache\<close> (the \<^verbatim>\<open>JobStatus\<close>
  enumeration and the \<^verbatim>\<open>JobCache\<close> singleton) is not among the sources. \<open>JobStatus\<close> has
  the four members the spec lists, which are the ones \<^verbatim>\<open>process.py\<close> names. What the
  cache does with a write is not modelled: the model records the calls
  \<^verbatim>\<open>JobCache().set_job(name, processor, videos, status)\<close> and
  \<^verbatim>\<open>JobCache().set_media(name, video, status)\<close> in the order in which they are made.
\<close>

datatype JobStatus = QUEUED | RUNNING | SUCCESS | FAILED

text \<open>The arguments of the \<^verbatim>\<open>ScriptProcessor\<close> constructor and of its \<^verbatim>\<open>run\<close> method.\<close>

record script_processor =
  sp_command :: "string list"
  sp_image_uri :: string
  sp_role :: string
  sp_instance_count :: nat
  sp_base_job_name :: string
  sp_instance_type :: string
  sp_volume_size_in_gb :: int
  sp_max_runtime_in_seconds :: nat
  sp_tags :: "tag list"

record run_call =
  run_code :: string
  run_arguments :: "string list"
  run_input_source :: string
  run_input_destination :: string
  run_output_source :: string
  run_output_destination :: string

text \<open>
  The events of a submission, in the order of the calls: the listing of the input
  bucket, the writes to the job cache, the container run and the reading of its
  status, the queue lookup and the publishing of a message (queue name, message body,
  message group id).
\<close>

datatype process_event =
    ListObjects string string
  | SetJob string string "string list" JobStatus
  | SetMedia string string JobStatus
  | RunProcessor script_processor run_call
  | DescribeJob
  | GetQueueByName string
  | SendMessage string string string

record job_description =
  ProcessingJobStatus :: string
  FailureReason :: "string option"

text \<open>
  What \<^verbatim>\<open>script_processor_run\<close> reads from its surroundings: the caller identity
  (\<^verbatim>\<open>Arn\<close> and \<^verbatim>\<open>Account\<close> of \<^verbatim>\<open>sts.get_caller_identity()\<close>, or the exception of the call),
  the region of the session, the environment variable \<^verbatim>\<open>SAGEMAKER_ROLE\<close>, the directory
  three levels above \<^verbatim>\<open>process.py\<close>, the keys of a bucket in listing order, whether
  \<^verbatim>\<open>script_processor.run\<close> raises, what \<^verbatim>\<open>describe()\<close> of the job answers once the run has
  returned, and the text of a float in an f-string. Floats are only passed through, so
  their type is a parameter.
\<close>

record 'f process_env =
  caller_arn :: "exn + string"
  caller_account :: "exn + string"
  region_name :: "string option"
  SAGEMAKER_ROLE :: "string option"
  package_root :: string
  bucket_keys :: "string \<Rightarrow> exn + string list"
  run_raises :: "exn option"
  describe :: "exn + job_description"
  str_float :: "'f \<Rightarrow> string"

text \<open>Python's truth value of a variable that is \<^verbatim>\<open>None\<close> or a string.\<close>

definition truthy :: "string option \<Rightarrow> bool" where
  "truthy s = (s \<noteq> None \<and> s \<noteq> Some [])"

text \<open>\<^verbatim>\<open>Config.get_role\<close>\<close>

definition get_role :: "string option \<Rightarrow> config_parser \<Rightarrow> exn + string" where
  "get_role sagemaker_role parser =
     (case sagemaker_role of
        Some r \<Rightarrow> Inr r
      | None \<Rightarrow>
          (case config_call parser ''aws'' ''sagemaker_arn'' of
             Inl e \<Rightarrow> Inl e
           | Inr sagemaker_arn \<Rightarrow>
               (if sagemaker_arn = []
                then Inl (Exception
                            ''Run deepsea-ai setup or set the SAGEMAKER_ROLE environment variable'')
                else Inr sagemaker_arn)))"

subsection \<open>script_processor_run\<close>

text \<open>The list \<^verbatim>\<open>arguments\<close>, built after the check of the tracker.\<close>

definition processor_arguments ::
  "('f \<Rightarrow> string) \<Rightarrow> config_parser \<Rightarrow> s3_url \<Rightarrow> int \<Rightarrow> string option \<Rightarrow> string option \<Rightarrow> bool \<Rightarrow>
   'f \<Rightarrow> 'f \<Rightarrow> string \<Rightarrow> exn + string list" where
  "processor_arguments fmt parser model_s3 model_size reid_model_url config_s3 save_vid
     conf_thres iou_thres tracker =
     (let arguments0 =
            [''dettrack'',
             ''--conf-thres='' @ fmt conf_thres,
             ''--iou-thres='' @ fmt iou_thres,
             ''--model-size='' @ str_int model_size,
             ''--model-s3=s3://'' @ netloc model_s3 @ ''/'' @ lstrip (path model_s3) ''/''];
          arguments1 =
            (if truthy config_s3 then arguments0 @ [''--config-s3='' @ str_opt config_s3]
             else arguments0);
          save = (if save_vid then [''--save-vid''] else [])
      in if truthy reid_model_url \<and> tracker = ''strongsort''
         then Inr (arguments1 @ [''--reid-weights='' @ str_opt reid_model_url] @ save)
         else if tracker = ''deepsort'' then
           (case config_call parser ''aws'' ''deepsort_track_config_s3'' of
              Inl e \<Rightarrow> Inl e
            | Inr c \<Rightarrow> Inr (arguments1 @ [''--config-s3='' @ c] @ save))
         else if tracker = ''strongsort'' then
           (case config_call parser ''aws'' ''strongsort_track_config_s3'' of
              Inl e \<Rightarrow> Inl e
            | Inr c \<Rightarrow> Inr (arguments1 @ [''--config-s3='' @ c] @ save))
         else Inr (arguments1 @ save))"

text \<open>
  Everything \<^verbatim>\<open>script_processor_run\<close> does before it lists the input bucket (lines 40 to
  81): the user name, the check of the tracker, the arguments, the image URI and the
  \<^verbatim>\<open>ScriptProcessor\<close>, whose maximum runtime is the constant 172800 seconds.
\<close>

record prepared =
  prep_arguments :: "string list"
  prep_image_uri_ecr :: string
  prep_base_job_name :: string
  prep_processor :: script_processor

definition prepare ::
  "'f process_env \<Rightarrow> config_parser \<Rightarrow> s3_url \<Rightarrow> int \<Rightarrow> string option \<Rightarrow> int \<Rightarrow> string \<Rightarrow>
   string option \<Rightarrow> bool \<Rightarrow> 'f \<Rightarrow> 'f \<Rightarrow> string \<Rightarrow> tag list \<Rightarrow> exn + prepared" where
  "prepare env parser model_s3 model_size reid_model_url volume_size_gb instance_type config_s3
     save_vid conf_thres iou_thres tracker tags =
     (case get_username (caller_arn env) of Inl e \<Rightarrow> Inl e | Inr user_name \<Rightarrow>
      if tracker \<notin> set [''deepsort'', ''strongsort'']
      then Inl (Exception (tracker @ '' not currently supported''))
      else
      case processor_arguments (str_float env) parser model_s3 model_size reid_model_url config_s3
             save_vid conf_thres iou_thres tracker of Inl e \<Rightarrow> Inl e | Inr arguments \<Rightarrow>
      case caller_account env of Inl e \<Rightarrow> Inl e | Inr account \<Rightarrow>
      case config_call parser ''aws'' ''deepsort_ecr'' of Inl e \<Rightarrow> Inl e | Inr deepsort_ecr \<Rightarrow>
      case config_call parser ''aws'' ''strongsort_ecr'' of Inl e \<Rightarrow> Inl e | Inr strongsort_ecr \<Rightarrow>
        (let image_uri_ecr =
               account @ ''.dkr.ecr.'' @ str_opt (region_name env) @ ''.amazonaws.com/'' @
               (if tracker = ''deepsort'' then deepsort_ecr else strongsort_ecr);
             base_job_name = tracker @ ''-yolov5-'' @ user_name
         in case get_role (SAGEMAKER_ROLE env) parser of Inl e \<Rightarrow> Inl e | Inr role \<Rightarrow>
              Inr \<lparr>prep_arguments = arguments,
                   prep_image_uri_ecr = image_uri_ecr,
                   prep_base_job_name = base_job_name,
                   prep_processor =
                     \<lparr>sp_command = [''python3''],
                      sp_image_uri = image_uri_ecr,
                      sp_role = role,
                      sp_instance_count = 1,
                      sp_base_job_name = base_job_name,
                      sp_instance_type = instance_type,
                      sp_volume_size_in_gb = volume_size_gb,
                      sp_max_runtime_in_seconds = 172800,
                      sp_tags = tags\<rparr>\<rparr>))"

text \<open>\<^verbatim>\<open>f"s3://{u.netloc}/{u.path.lstrip('/')}"\<close>\<close>

definition s3_uri :: "s3_url \<Rightarrow> string" where
  "s3_uri u = ''s3://'' @ netloc u @ ''/'' @ lstrip (path u) ''/''"

text \<open>
  The videos of the run: the keys of the input bucket that start with the input prefix,
  each with every occurrence of the prefix removed (\<^verbatim>\<open>video.replace(prefix, '')\<close>).
\<close>

definition listed_videos :: "s3_url \<Rightarrow> string list \<Rightarrow> string list" where
  "listed_videos input_s3 keys =
     map (remove_all (lstrip (path input_s3) ''/''))
       (filter (prefix (lstrip (path input_s3) ''/'')) keys)"

text \<open>The arguments of the call \<^verbatim>\<open>script_processor.run(code=..., arguments=..., inputs=...,
  outputs=...)\<close>.\<close>

definition processor_run_call :: "string \<Rightarrow> string \<Rightarrow> string list \<Rightarrow> s3_url \<Rightarrow> s3_url \<Rightarrow> run_call" where
  "processor_run_call root tracker arguments input_s3 output_s3 =
     \<lparr>run_code = root @ ''/deepsea_ai/pipeline/run_'' @ tracker @ ''.py'',
      run_arguments = arguments,
      run_input_source = s3_uri input_s3,
      run_input_destination = ''/opt/ml/processing/input'',
      run_output_source = ''/opt/ml/processing/output'',
      run_output_destination = s3_uri output_s3\<rparr>"

text \<open>
  The pattern \<^verbatim>\<open>script_processor_run\<close> uses three times:
  \<^verbatim>\<open>JobCache().set_job(name, processor, videos, status)\<close>, then
  \<^verbatim>\<open>JobCache().set_media(name, v, status)\<close> for every video.
\<close>

definition set_job_and_media :: "string \<Rightarrow> string \<Rightarrow> string list \<Rightarrow> JobStatus \<Rightarrow> process_event list" where
  "set_job_and_media job_name processor videos status =
     SetJob job_name processor videos status # map (\<lambda>v. SetMedia job_name v status) videos"

text \<open>
  The rest of \<^verbatim>\<open>script_processor_run\<close>, from "log the video as running" on (lines 94 to
  122): the RUNNING writes, the blocking run, and the writes and the result that depend
  on the status the job reports. \<^verbatim>\<open>describe()\<close> is called once more to read the failure
  reason.
\<close>

definition run_and_record ::
  "'f process_env \<Rightarrow> script_processor \<Rightarrow> run_call \<Rightarrow> string \<Rightarrow> string \<Rightarrow> string list \<Rightarrow> string \<Rightarrow>
   process_event list \<times> exn option" where
  "run_and_record env sp rc base_job_name processor videos source =
     (let started =
            set_job_and_media base_job_name processor videos RUNNING @ [RunProcessor sp rc]
      in case run_raises env of
           Some e \<Rightarrow> (started, Some e)
         | None \<Rightarrow>
             (case describe env of
                Inl e \<Rightarrow> (started @ [DescribeJob], Some e)
              | Inr d \<Rightarrow>
                  (if ProcessingJobStatus d = ''Failed'' then
                     (case FailureReason d of
                        None \<Rightarrow> (started @ [DescribeJob, DescribeJob], Some (KeyError ''FailureReason''))
                      | Some reason \<Rightarrow>
                          (started @ [DescribeJob, DescribeJob] @
                           set_job_and_media base_job_name processor videos FAILED,
                           Some (Exception (''Script processor failed for inputs '' @ source @
                                            '': '' @ reason))))
                   else
                     (started @ [DescribeJob] @
                      set_job_and_media base_job_name processor videos SUCCESS,
                      None))))"

text \<open>
  \<^verbatim>\<open>script_processor_run\<close>: the events, and the exception that leaves the function, if
  any. The calls to the logger are left out.
\<close>

definition script_processor_run ::
  "'f process_env \<Rightarrow> config_parser \<Rightarrow> s3_url \<Rightarrow> s3_url \<Rightarrow> s3_url \<Rightarrow> int \<Rightarrow> string option \<Rightarrow> int \<Rightarrow>
   string \<Rightarrow> string option \<Rightarrow> bool \<Rightarrow> 'f \<Rightarrow> 'f \<Rightarrow> string \<Rightarrow> tag list \<Rightarrow>
   process_event list \<times> exn option" where
  "script_processor_run env parser input_s3 output_s3 model_s3 model_size reid_model_url
     volume_size_gb instance_type config_s3 save_vid conf_thres iou_thres tracker tags =
     (case prepare env parser model_s3 model_size reid_model_url volume_size_gb instance_type
             config_s3 save_vid conf_thres iou_thres tracker tags of
        Inl e \<Rightarrow> ([], Some e)
      | Inr p \<Rightarrow>
          (case bucket_keys env (netloc input_s3) of
             Inl e \<Rightarrow> ([ListObjects (netloc input_s3) (lstrip (path input_s3) ''/'')], Some e)
           | Inr keys \<Rightarrow>
               (let videos = listed_videos input_s3 keys;
                    processor = last (split (prep_image_uri_ecr p) ''/'');
                    rc = processor_run_call (package_root env) tracker (prep_arguments p) input_s3
                           output_s3;
                    r = run_and_record env (prep_processor p) rc (prep_base_job_name p) processor
                          videos (s3_uri input_s3)
                in (ListObjects (netloc input_s3) (lstrip (path input_s3) ''/'') # fst r, snd r))))"

subsection \<open>batch_run\<close>

text \<open>The value \<^verbatim>\<open>json.dumps\<close> is given: an object of strings and numbers.\<close>

datatype 'f json = JString string | JNumber 'f | JObject "(string \<times> 'f json) list"

text \<open>
  What \<^verbatim>\<open>batch_run\<close> reads from its surroundings. \<^verbatim>\<open>get_prefix\<close> is imported from
  \<^verbatim>\<open>upload_tag\<close> but is not among the sources, so it is a parameter, as are the answers of
  the queue service (whether the lookup of a queue raises; the exception or the
  \<^verbatim>\<open>MessageId\<close> of \<^verbatim>\<open>send_message\<close>), \<^verbatim>\<open>datetime.utcnow()\<close> and the serialiser
  \<^verbatim>\<open>json.dumps(..., indent=4)\<close>.
\<close>

record 'f queue_env =
  get_prefix :: "posix_path \<Rightarrow> string"
  queue_lookup :: "string \<Rightarrow> exn option"
  send_message :: "exn + string option"
  utcnow :: datetime
  json_dumps :: "'f json \<Rightarrow> string"

text \<open>\<^verbatim>\<open>resources[k]\<close>\<close>

definition resource :: "resources \<Rightarrow> string \<Rightarrow> exn + string" where
  "resource res k = (case res k of None \<Rightarrow> Inl (KeyError k) | Some v \<Rightarrow> Inr v)"

definition message_dict :: "string \<Rightarrow> posix_path \<Rightarrow> string \<Rightarrow> string \<Rightarrow> bool \<Rightarrow> 'f \<Rightarrow> 'f \<Rightarrow> 'f json" where
  "message_dict prefix_path video_path job_name user_name clean conf_thres iou_thres =
     JObject [(''video'', JString (prefix_path @ ''/'' @ path_name video_path)),
              (''clean'', JString (if clean then ''True'' else ''False'')),
              (''user_name'', JString user_name),
              (''job_name'', JString job_name),
              (''conf_thres'', JNumber conf_thres),
              (''iou_thres'', JNumber iou_thres)]"

text \<open>
  \<^verbatim>\<open>batch_run\<close>: the events, and the exception that leaves the function, if any. The
  message is sent first; the job cache is written after \<^verbatim>\<open>send_message\<close> has returned.
\<close>

definition batch_run ::
  "'f queue_env \<Rightarrow> resources \<Rightarrow> posix_path \<Rightarrow> string \<Rightarrow> string \<Rightarrow> bool \<Rightarrow> 'f \<Rightarrow> 'f \<Rightarrow>
   process_event list \<times> exn option" where
  "batch_run env res video_path job_name user_name clean conf_thres iou_thres =
     (case resource res ''VIDEO_QUEUE'' of Inl e \<Rightarrow> ([], Some e) | Inr queue_name \<Rightarrow>
      case queue_lookup env queue_name of
        Some e \<Rightarrow> ([GetQueueByName queue_name], Some e)
      | None \<Rightarrow>
          (let json_object =
                 json_dumps env
                   (message_dict (get_prefix env video_path) video_path job_name user_name clean
                      conf_thres iou_thres);
               group_id = strftime (utcnow env)
           in case resource res ''CLUSTER'' of
                Inl e \<Rightarrow> ([GetQueueByName queue_name], Some e)
              | Inr cluster \<Rightarrow>
                  (let sent = [GetQueueByName queue_name,
                               SendMessage queue_name json_object (cluster @ group_id)]
                   in case send_message env of
                        Inl e \<Rightarrow> (sent, Some e)
                      | Inr message_id \<Rightarrow>
                          (sent @
                           [SetJob job_name cluster [path_name video_path] QUEUED,
                            SetMedia job_name (path_name video_path) QUEUED],
                           None))))"

subsection \<open>Notions used to state the properties of the submission\<close>

text \<open>The status a job-cache write records; \<open>None\<close> for every other event.\<close>

fun written_status :: "process_event \<Rightarrow> JobStatus option" where
  "written_status (SetJob n p vs st) = Some st"
| "written_status (SetMedia n v st) = Some st"
| "written_status ev = None"

section \<open>Concrete inputs\<close>

text \<open>The inputs at which the theorems below are evaluated.\<close>

definition demo_parser :: config_parser where
  "demo_parser =
     [''tags'' \<mapsto> [''organization'' \<mapsto> ''mbari'', ''project_number'' \<mapsto> ''902005'',
                   ''stage'' \<mapsto> ''prod'', ''application'' \<mapsto> ''detection'']]"

definition demo_now :: datetime where
  "demo_now = \<lparr>year = 2023, month = 12, day = 15, hour = 7, minute = 5, second = 9,
                microsecond = 123456\<rparr>"

definition demo_arn :: string where
  "demo_arn = ''arn:aws:iam::123:user/dcline@mbari.org''"

definition asg_only_cloud :: cloud where
  "asg_only_cloud =
     \<lparr>list_stack_resources = (\<lambda>n. Inr [\<lparr>ResourceType = ''AWS::AutoScaling::AutoScalingGroup'',
                                           PhysicalResourceId = ''asg-1''\<rparr>]),
      describe_task_definition = (\<lambda>arn. Inr [])\<rparr>"

definition demo_cloud :: cloud where
  "demo_cloud =
     \<lparr>list_stack_resources = (\<lambda>n. Inr [\<lparr>ResourceType = ''AWS::ECS::TaskDefinition'',
                                           PhysicalResourceId = ''arn:task''\<rparr>]),
      describe_task_definition = (\<lambda>arn. Inr [[\<lparr>env_name = ''VIDEO_QUEUE'', env_value = ''demo-video-q''\<rparr>,
          \<lparr>env_name = ''VIDEO_BUCKET'', env_value = ''demo-in''\<rparr>,
          \<lparr>env_name = ''TRACK_BUCKET'', env_value = ''demo-out''\<rparr>,
          \<lparr>env_name = ''PROCESSOR'', env_value = ''yolov5-proc''\<rparr>]])\<rparr>"

definition unknown_stack_cloud :: cloud where
  "unknown_stack_cloud =
     \<lparr>list_stack_resources = (\<lambda>n. Inl (ClientError ''ValidationError'' ''Stack does not exist'')),
      describe_task_definition = (\<lambda>arn. Inr [])\<rparr>"

definition access_denied_cloud :: cloud where
  "access_denied_cloud =
     \<lparr>list_stack_resources = (\<lambda>n. Inl (ClientError ''AccessDeniedException'' ''not authorized'')),
      describe_task_definition = (\<lambda>arn. Inr [])\<rparr>"

definition expired_token_cloud :: cloud where
  "expired_token_cloud =
     \<lparr>list_stack_resources = (\<lambda>n. Inl (ClientError ''ExpiredTokenException'' ''token expired'')),
      describe_task_definition = (\<lambda>arn. Inr [])\<rparr>"

definition offline_cloud :: cloud where
  "offline_cloud =
     \<lparr>list_stack_resources = (\<lambda>n. Inl (OtherError ''EndpointConnectionError'')),
      describe_task_definition = (\<lambda>arn. Inr [])\<rparr>"

definition demo_video :: posix_path where
  "demo_video = PosixPath True [''Volumes'', ''data'', ''dive1'', ''clip1.mp4'']"

definition mnt_video :: posix_path where
  "mnt_video = PosixPath True [''mnt'', ''data'', ''dive1'', ''clip1.mp4'']"

definition demo_files :: files where
  "demo_files =
     (\<lambda>p. if p = ''/Volumes/data/dive1/clip1.mp4'' then Inr ''frames''
          else Inl (OSError ''[Errno 2] No such file or directory''))"

definition demo_s3 :: s3_url where
  "demo_s3 = \<lparr>netloc = ''bucket'', path = []\<rparr>"

definition demo_tag_set :: "tag list" where
  "demo_tag_set = [\<lparr>Key = ''mbari:stage'', Value = ''prod''\<rparr>]"

definition empty_world :: world where
  "empty_world = \<lparr>objects = Map.empty, faults = [], calls = []\<rparr>"

definition uploaded_world :: world where
  "uploaded_world =
     \<lparr>objects = [(''bucket'', ''data/dive1/clip1.mp4'') \<mapsto>
                   \<lparr>content = ''frames'', tagging = demo_tag_set\<rparr>],
      faults = [],
      calls = [Print bandwidth_hint,
               HeadObject ''bucket'' ''data/dive1/clip1.mp4'',
               Print ''Uploading /Volumes/data/dive1/clip1.mp4 to s3://bucket/data/dive1/clip1.mp4...'',
               UploadFileobj ''bucket'' ''data/dive1/clip1.mp4'',
               PutObjectTagging ''bucket'' ''data/dive1/clip1.mp4'' demo_tag_set]\<rparr>"

definition three_gigabytes :: "world \<Rightarrow> s3_url \<Rightarrow> nat" where
  "three_gigabytes w u = 3000000000"

definition demo_aws_parser :: config_parser where
  "demo_aws_parser =
     [''aws'' \<mapsto> [''deepsort_ecr'' \<mapsto> ''mbari/deepsea-yolov5:1.1.2'',
                  ''strongsort_ecr'' \<mapsto> ''mbari/strongsort-yolov5:1.10.0'',
                  ''deepsort_track_config_s3'' \<mapsto> ''s3://cfg/deep_sort.yaml'',
                  ''strongsort_track_config_s3'' \<mapsto> ''s3://cfg/strong_sort.yaml'']]"

definition failed_job_env :: "string process_env" where
  "failed_job_env =
     \<lparr>caller_arn = Inr demo_arn,
      caller_account = Inr ''123456789012'',
      region_name = Some ''us-west-2'',
      SAGEMAKER_ROLE = Some ''arn:aws:iam::123456789012:role/sagemaker'',
      package_root = ''/opt/deepsea-ai'',
      bucket_keys = (\<lambda>bucket. Inr [''in/clip1.mp4'', ''in/clip2.mp4'']),
      run_raises = None,
      describe = Inr \<lparr>ProcessingJobStatus = ''Failed'', FailureReason = Some ''OutOfMemory''\<rparr>,
      str_float = (\<lambda>x. x)\<rparr>"



definition demo_input_s3 :: s3_url where
  "demo_input_s3 = \<lparr>netloc = ''in-bucket'', path = ''/in''\<rparr>"

definition demo_output_s3 :: s3_url where
  "demo_output_s3 = \<lparr>netloc = ''out-bucket'', path = ''/out/20231215T070509Z/''\<rparr>"

definition demo_model_s3 :: s3_url where
  "demo_model_s3 = \<lparr>netloc = ''models'', path = ''/yolov5x/model.tar.gz''\<rparr>"

definition demo_processor :: script_processor where
  "demo_processor =
     \<lparr>sp_command = [''python3''],
      sp_image_uri = ''123456789012.dkr.ecr.us-west-2.amazonaws.com/mbari/deepsea-yolov5:1.1.2'',
      sp_role = ''arn:aws:iam::123456789012:role/sagemaker'',
      sp_instance_count = 1,
      sp_base_job_name = ''deepsort-yolov5-dcline'',
      sp_instance_type = ''ml.g4dn.xlarge'',
      sp_volume_size_in_gb = 10,
      sp_max_runtime_in_seconds = 172800,
      sp_tags = demo_tag_set\<rparr>"

definition demo_prepared :: prepared where
  "demo_prepared =
     \<lparr>prep_arguments = [''dettrack'', ''--conf-thres=0.01'', ''--iou-thres=0.1'', ''--model-size=640'',
                        ''--model-s3=s3://models/yolov5x/model.tar.gz'',
                        ''--config-s3=s3://cfg/deep_sort.yaml''],
      prep_image_uri_ecr = ''123456789012.dkr.ecr.us-west-2.amazonaws.com/mbari/deepsea-yolov5:1.1.2'',
      prep_base_job_name = ''deepsort-yolov5-dcline'',
      prep_processor = demo_processor\<rparr>"


definition demo_resources :: resources where
  "demo_resources = [''CLUSTER'' \<mapsto> ''demo-cluster'', ''VIDEO_QUEUE'' \<mapsto> ''demo-video-q'',
                     ''VIDEO_BUCKET'' \<mapsto> ''demo-in'', ''TRACK_BUCKET'' \<mapsto> ''demo-out'',
                     ''PROCESSOR'' \<mapsto> ''yolov5-proc'']"

text \<open>A serialiser in the layout of \<^verbatim>\<open>json.dumps(..., indent=4)\<close>, for a flat object whose
  strings need no escape; a float is given by its text.\<close>

definition demo_render :: "string json \<Rightarrow> string" where
  "demo_render j =
     (case j of JString s \<Rightarrow> [CHR 34] @ s @ [CHR 34] | JNumber x \<Rightarrow> x | JObject members \<Rightarrow> ''{}'')"

definition demo_dumps :: "string json \<Rightarrow> string" where
  "demo_dumps j =
     (case j of
        JObject members \<Rightarrow>
          ''{'' @ [CHR 10] @
          join ('','' @ [CHR 10])
            (map (\<lambda>(k, v). ''    '' @ [CHR 34] @ k @ [CHR 34] @ '': '' @ demo_render v) members) @
          [CHR 10] @ ''}''
      | _ \<Rightarrow> demo_render j)"

definition demo_queue_env :: "string queue_env" where
  "demo_queue_env =
     \<lparr>get_prefix = (\<lambda>p. ''data/dive1''),
      queue_lookup = (\<lambda>n. None),
      send_message = Inr (Some ''msg-1''),
      utcnow = demo_now,
      json_dumps = demo_dumps\<rparr>"

definition failing_queue_env :: "string queue_env" where
  "failing_queue_env = demo_queue_env\<lparr>send_message := Inl (ClientError ''InvalidParameterValue'' ''bad group id'')\<rparr>"

definition demo_message :: "string json" where
  "demo_message =
     JObject [(''video'', JString ''data/dive1/clip1.mp4''),
              (''clean'', JString ''True''),
              (''user_name'', JString ''dcline''),
              (''job_name'', JString ''DiveV1''),
              (''conf_thres'', JNumber ''0.01''),
              (''iou_thres'', JNumber ''0.1'')]"

definition asg_task_cloud :: cloud where
  "asg_task_cloud =
     \<lparr>list_stack_resources =
        (\<lambda>n. Inr [\<lparr>ResourceType = ''AWS::AutoScaling::AutoScalingGroup'', PhysicalResourceId = ''asg-1''\<rparr>,
                  \<lparr>ResourceType = ''AWS::ECS::TaskDefinition'', PhysicalResourceId = ''arn:task''\<rparr>,
                  \<lparr>ResourceType = ''AWS::AutoScaling::AutoScalingGroup'', PhysicalResourceId = ''asg-2''\<rparr>]),
      describe_task_definition =
        (\<lambda>arn. Inr [[\<lparr>env_name = ''VIDEO_QUEUE'', env_value = ''demo-video-q''\<rparr>,
                    \<lparr>env_name = ''PROCESSOR'', env_value = ''yolov5-proc''\<rparr>]])\<rparr>"

definition describe_denied_cloud :: cloud where
  "describe_denied_cloud =
     \<lparr>list_stack_resources =
        (\<lambda>n. Inr [\<lparr>ResourceType = ''AWS::ECS::TaskDefinition'', PhysicalResourceId = ''arn:task''\<rparr>]),
      describe_task_definition =
        (\<lambda>arn. Inl (ClientError ''AccessDeniedException'' ''not authorized to describe''))\<rparr>"

definition describe_throttled_cloud :: cloud where
  "describe_throttled_cloud =
     \<lparr>list_stack_resources =
        (\<lambda>n. Inr [\<lparr>ResourceType = ''AWS::ECS::TaskDefinition'', PhysicalResourceId = ''arn:task''\<rparr>]),
      describe_task_definition =
        (\<lambda>arn. Inl (ClientError ''ThrottlingException'' ''rate exceeded''))\<rparr>"

section \<open>Properties of the string operations\<close>

lemma contains_Nil [simp]: "contains [] s"
  by (cases s) simp_all

lemma contains_single: "contains [c] s \<longleftrightarrow> c \<in> set s"
  by (induction s) auto

lemma split_from_not_Nil: "split_from sep acc s \<noteq> []"
  by (induction sep acc s rule: split_from.induct) auto

lemma contains_iff: "contains sub s \<longleftrightarrow> (\<exists>p r. s = p @ sub @ r)"
proof (induction s)
  case Nil
  then show ?case by auto
next
  case (Cons c cs)
  show ?case
  proof
    assume "contains sub (c # cs)"
    then consider "prefix sub (c # cs)" | "contains sub cs" by auto
    then show "\<exists>p r. c # cs = p @ sub @ r"
    proof cases
      case 1
      then obtain r where "c # cs = sub @ r" by (auto simp: prefix_def)
      then have "c # cs = [] @ sub @ r" by simp
      then show ?thesis by blast
    next
      case 2
      then obtain p r where "cs = p @ sub @ r" using Cons.IH by blast
      then have "c # cs = (c # p) @ sub @ r" by simp
      then show ?thesis by blast
    qed
  next
    assume "\<exists>p r. c # cs = p @ sub @ r"
    then obtain p r where eq: "c # cs = p @ sub @ r" by blast
    show "contains sub (c # cs)"
    proof (cases p)
      case Nil
      then have "prefix sub (c # cs)" using eq by (simp add: prefix_def)
      then show ?thesis by simp
    next
      case (Cons a p')
      then have "cs = p' @ sub @ r" using eq by simp
      then show ?thesis using Cons.IH by auto
    qed
  qed
qed

lemma split_from_no_sep:
  "\<not> contains sep s \<Longrightarrow> split_from sep acc s = [rev acc @ s]"
proof (induction sep acc s rule: split_from.induct)
  case (1 sep acc)
  then show ?case by simp
next
  case (2 sep acc c cs)
  then show ?case by auto
qed

text \<open>A separator with pairwise distinct characters cannot overlap itself.\<close>

lemma no_overlap:
  assumes d: "distinct sep" and p: "prefix sep (p @ sep @ r)" and ne: "p \<noteq> []"
  shows "length sep \<le> length p"
proof (rule ccontr)
  assume "\<not> length sep \<le> length p"
  then have lt: "length p < length sep" by simp
  from ne lt have pos: "0 < length sep" "0 < length p" by auto
  from p obtain t where t: "p @ sep @ r = sep @ t" by (auto simp: prefix_def)
  have "(p @ sep @ r) ! length p = sep ! 0"
    using pos by (simp add: nth_append)
  moreover have "(sep @ t) ! length p = sep ! length p"
    using lt by (simp add: nth_append)
  ultimately have "sep ! length p = sep ! 0" using t by simp
  with d lt pos have "length p = 0" by (simp add: nth_eq_iff_index_eq)
  with pos show False by simp
qed

lemma last_split_from:
  assumes d: "distinct sep" and ne: "sep \<noteq> []" and r: "\<not> contains sep r"
  shows "last (split_from sep acc (p @ sep @ r)) = r"
proof (induction p arbitrary: acc rule: length_induct)
  case (1 p)
  show ?case
  proof (cases p)
    case Nil
    obtain c cs where sep: "sep = c # cs" using ne by (cases sep) auto
    have "split_from sep acc (sep @ r) = rev acc # split_from sep [] r"
      by (simp add: sep)
    then show ?thesis using Nil r by (simp add: split_from_no_sep split_from_not_Nil)
  next
    case (Cons a p')
    show ?thesis
    proof (cases "prefix sep (p @ sep @ r)")
      case True
      from no_overlap [OF d True] Cons have le: "length sep \<le> length p" by simp
      have "drop (length sep) (p @ sep @ r) = drop (length sep) p @ sep @ r"
        using le by simp
      moreover have "length (drop (length sep) p) < length p"
        using ne Cons by simp
      ultimately have "last (split_from sep [] (drop (length sep) (p @ sep @ r))) = r"
        using 1 by simp
      moreover have "split_from sep acc (p @ sep @ r) =
          rev acc # split_from sep [] (drop (length sep) (p @ sep @ r))"
        using True ne Cons by simp
      ultimately show ?thesis by (simp add: split_from_not_Nil)
    next
      case False
      then have "split_from sep acc (p @ sep @ r) = split_from sep (a # acc) (p' @ sep @ r)"
        using Cons by simp
      moreover have "last (split_from sep (a # acc) (p' @ sep @ r)) = r"
        using 1 Cons by simp
      ultimately show ?thesis by simp
    qed
  qed
qed

lemma last_split_after:
  "distinct sep \<Longrightarrow> sep \<noteq> [] \<Longrightarrow> \<not> contains sep r \<Longrightarrow> last (split (p @ sep @ r) sep) = r"
  by (simp add: split_def last_split_from)

lemma last_split_none: "\<not> contains sep s \<Longrightarrow> last (split s sep) = s"
  by (simp add: split_def split_from_no_sep)


section \<open>Resource resolution\<close>

lemma scan_keys_other: "k \<notin> set ks \<Longrightarrow> scan_keys ks e res k = res k"
  by (induction ks arbitrary: res) auto

lemma scan_keys_in:
  "k \<in> set ks \<Longrightarrow> scan_keys ks e res k = (if contains k (env_name e) then Some (env_value e) else res k)"
proof (induction ks arbitrary: res)
  case Nil
  then show ?case by simp
next
  case (Cons a ks)
  show ?case
  proof (cases "k \<in> set ks")
    case True
    then show ?thesis using Cons.IH [OF True] by auto
  next
    case False
    with Cons.prems have "a = k" by simp
    then show ?thesis using False by (simp add: scan_keys_other)
  qed
qed

lemma scan_environment_other: "k \<notin> set key \<Longrightarrow> scan_environment es res k = res k"
  by (induction es arbitrary: res) (auto simp: scan_keys_other)

lemma find_app: "find P (xs @ ys) = (case find P xs of None \<Rightarrow> find P ys | Some x \<Rightarrow> Some x)"
  by (induction xs) auto

lemma scan_environment_in:
  "k \<in> set key \<Longrightarrow>
   scan_environment es res k =
     (case find (\<lambda>e. contains k (env_name e)) (rev es) of
        None \<Rightarrow> res k
      | Some e \<Rightarrow> Some (env_value e))"
proof (induction es arbitrary: res)
  case Nil
  then show ?case by simp
next
  case (Cons e es)
  show ?case
    using Cons.IH [OF Cons.prems, of "scan_keys key e res"] Cons.prems
    by (auto simp: scan_keys_in find_app split: option.splits)
qed

text \<open>
  What the loop over the stack's resources leaves under \<^verbatim>\<open>'ASG'\<close>: the identifier of the
  last autoscaling group among the resources it went through, if there is one.
\<close>

lemma scan_stack_no_task:
  "find (\<lambda>r. contains ''AWS::ECS::TaskDefinition'' (ResourceType r)) rs = None \<Longrightarrow>
   scan_stack c rs res =
     Inr (case find (\<lambda>r. contains ''AWS::AutoScaling::AutoScalingGroup'' (ResourceType r)) (rev rs) of
            None \<Rightarrow> res
          | Some a \<Rightarrow> res(''ASG'' \<mapsto> PhysicalResourceId a))"
proof (induction rs arbitrary: res)
  case Nil
  then show ?case by simp
next
  case (Cons a rs)
  from Cons.prems have no_td: "\<not> contains ''AWS::ECS::TaskDefinition'' (ResourceType a)"
    and rest: "find (\<lambda>r. contains ''AWS::ECS::TaskDefinition'' (ResourceType r)) rs = None"
    by (auto split: if_splits)
  show ?case
    using no_td Cons.IH [OF rest]
    by (auto simp: find_app split: option.splits)
qed

lemma scan_stack_task:
  "find (\<lambda>r. contains ''AWS::ECS::TaskDefinition'' (ResourceType r)) rs = Some r \<Longrightarrow>
   scan_stack c rs res =
     (case describe_task_definition c (PhysicalResourceId r) of
        Inl e \<Rightarrow> Inl e
      | Inr [] \<Rightarrow> Inl IndexError
      | Inr (environment # others) \<Rightarrow>
          Inr (scan_environment environment
                 (case find (\<lambda>r. contains ''AWS::AutoScaling::AutoScalingGroup'' (ResourceType r))
                         (rev (takeWhile
                                 (\<lambda>r. \<not> contains ''AWS::ECS::TaskDefinition'' (ResourceType r))
                                 rs)) of
                    None \<Rightarrow> res
                  | Some a \<Rightarrow> res(''ASG'' \<mapsto> PhysicalResourceId a))))"
proof (induction rs arbitrary: res)
  case Nil
  then show ?case by simp
next
  case (Cons a rs)
  show ?case
  proof (cases "contains ''AWS::ECS::TaskDefinition'' (ResourceType a)")
    case True
    with Cons.prems have "a = r" by simp
    with True have "contains ''AWS::ECS::TaskDefinition'' (ResourceType r)" by simp
    then show ?thesis using \<open>a = r\<close> by (simp split: sum.splits list.splits)
  next
    case no_td: False
    with Cons.prems have rest: "find (\<lambda>r. contains ''AWS::ECS::TaskDefinition'' (ResourceType r)) rs = Some r"
      by simp
    show ?thesis
      using no_td Cons.IH [OF rest]
      by (auto simp: find_app split: option.splits sum.splits list.splits)
  qed
qed

lemma CLUSTER_not_key: "''CLUSTER'' \<notin> set key" "''ASG'' \<notin> set key"
  by (simp_all add: key_def)

lemma get_resources_no_task:
  assumes "list_stack_resources c stack_name = Inr rs"
    and "find (\<lambda>r. contains ''AWS::ECS::TaskDefinition'' (ResourceType r)) rs = None"
  shows "get_resources c stack_name =
           ([], Inr (Some (\<lambda>k. if k = ''CLUSTER'' then Some stack_name
                               else if k = ''ASG''
                               then map_option PhysicalResourceId
                                      (find (\<lambda>r. contains ''AWS::AutoScaling::AutoScalingGroup''
                                                   (ResourceType r)) (rev rs))
                               else None)))"
proof -
  let ?res = "case find (\<lambda>r. contains ''AWS::AutoScaling::AutoScalingGroup'' (ResourceType r))
                     (rev rs) of
                None \<Rightarrow> [''CLUSTER'' \<mapsto> stack_name]
              | Some a \<Rightarrow> [''CLUSTER'' \<mapsto> stack_name, ''ASG'' \<mapsto> PhysicalResourceId a]"
  have "get_resources c stack_name = ([], Inr (Some ?res))"
    using assms by (simp add: get_resources_def stack_lookup_def scan_stack_no_task)
  moreover have "?res k =
      (if k = ''CLUSTER'' then Some stack_name
       else if k = ''ASG''
       then map_option PhysicalResourceId
              (find (\<lambda>r. contains ''AWS::AutoScaling::AutoScalingGroup'' (ResourceType r)) (rev rs))
       else None)" for k
    by (simp split: option.splits)
  ultimately show ?thesis by (simp add: fun_eq_iff)
qed

lemma get_resources_task:
  assumes "list_stack_resources c stack_name = Inr rs"
    and "find (\<lambda>r. contains ''AWS::ECS::TaskDefinition'' (ResourceType r)) rs = Some r"
    and "describe_task_definition c (PhysicalResourceId r) = Inr (environment # others)"
  shows "get_resources c stack_name =
           ([], Inr (Some (\<lambda>k. if k \<in> set key
                               then map_option env_value
                                      (find (\<lambda>e. contains k (env_name e)) (rev environment))
                               else if k = ''CLUSTER'' then Some stack_name
                               else if k = ''ASG''
                               then map_option PhysicalResourceId
                                      (find (\<lambda>r. contains ''AWS::AutoScaling::AutoScalingGroup''
                                                   (ResourceType r))
                                         (rev (takeWhile
                                                 (\<lambda>r. \<not> contains ''AWS::ECS::TaskDefinition''
                                                           (ResourceType r)) rs)))
                               else None)))"
proof -
  let ?res = "case find (\<lambda>r. contains ''AWS::AutoScaling::AutoScalingGroup'' (ResourceType r))
                     (rev (takeWhile
                             (\<lambda>r. \<not> contains ''AWS::ECS::TaskDefinition'' (ResourceType r)) rs)) of
                None \<Rightarrow> [''CLUSTER'' \<mapsto> stack_name]
              | Some a \<Rightarrow> [''CLUSTER'' \<mapsto> stack_name, ''ASG'' \<mapsto> PhysicalResourceId a]"
  have "get_resources c stack_name = ([], Inr (Some (scan_environment environment ?res)))"
    using assms by (simp add: get_resources_def stack_lookup_def scan_stack_task)
  moreover have "scan_environment environment ?res k =
      (if k \<in> set key
       then map_option env_value (find (\<lambda>e. contains k (env_name e)) (rev environment))
       else if k = ''CLUSTER'' then Some stack_name
       else if k = ''ASG''
       then map_option PhysicalResourceId
              (find (\<lambda>r. contains ''AWS::AutoScaling::AutoScalingGroup'' (ResourceType r))
                 (rev (takeWhile (\<lambda>r. \<not> contains ''AWS::ECS::TaskDefinition'' (ResourceType r)) rs)))
       else None)" for k
  proof (cases "k \<in> set key")
    case True
    then have "k \<noteq> ''ASG''" "k \<noteq> ''CLUSTER''" using CLUSTER_not_key by auto
    then have "?res k = None" by (simp split: option.splits)
    then show ?thesis using True by (simp add: scan_environment_in split: option.splits)
  next
    case False
    then show ?thesis by (simp add: scan_environment_other split: option.splits)
  qed
  ultimately show ?thesis by (simp add: fun_eq_iff)
qed

lemma get_resources_no_container:
  assumes "list_stack_resources c stack_name = Inr rs"
    and "find (\<lambda>r. contains ''AWS::ECS::TaskDefinition'' (ResourceType r)) rs = Some r"
    and "describe_task_definition c (PhysicalResourceId r) = Inr []"
  shows "get_resources c stack_name = ([], Inl IndexError)"
  using assms by (simp add: get_resources_def stack_lookup_def scan_stack_task)

text \<open>The exception of a failed lookup is the one the failing service call raised.\<close>

lemma stack_lookup_error:
  "(list_stack_resources c stack_name = Inl e \<or>
    (list_stack_resources c stack_name = Inr rs \<and>
     find (\<lambda>r. contains ''AWS::ECS::TaskDefinition'' (ResourceType r)) rs = Some r \<and>
     describe_task_definition c (PhysicalResourceId r) = Inl e)) \<Longrightarrow>
   stack_lookup c stack_name = Inl e"
  by (auto simp: stack_lookup_def scan_stack_task)

lemma stack_lookup_error_cases:
  assumes "stack_lookup c stack_name = Inl e"
  shows "list_stack_resources c stack_name = Inl e \<or>
         (\<exists>rs r. list_stack_resources c stack_name = Inr rs \<and>
            find (\<lambda>r. contains ''AWS::ECS::TaskDefinition'' (ResourceType r)) rs = Some r \<and>
            (describe_task_definition c (PhysicalResourceId r) = Inl e \<or>
             describe_task_definition c (PhysicalResourceId r) = Inr [] \<and> e = IndexError))"
proof (cases "list_stack_resources c stack_name")
  case (Inl a)
  then show ?thesis using assms by (simp add: stack_lookup_def)
next
  case (Inr rs)
  show ?thesis
  proof (cases "find (\<lambda>r. contains ''AWS::ECS::TaskDefinition'' (ResourceType r)) rs")
    case None
    then show ?thesis using assms Inr by (simp add: stack_lookup_def scan_stack_no_task)
  next
    case (Some r)
    then show ?thesis using assms Inr
      by (auto simp: stack_lookup_def scan_stack_task split: sum.splits list.splits)
  qed
qed

text \<open>
  Claim C1, as the code has it. When the stack listing succeeds, what \<open>get_resources\<close>
  returns is fixed by the listing and by the description of the first task definition
  listed. If no task definition is listed, it returns the dictionary that holds
  \<^verbatim>\<open>CLUSTER\<close>, and under \<^verbatim>\<open>ASG\<close> the last autoscaling group listed, and nothing else: none
  of the six required keys, and not \<open>None\<close>. If a task definition is listed and its
  description has a first container with the environment \<open>environment\<close>, it returns the
  dictionary that holds \<^verbatim>\<open>CLUSTER\<close>, under \<^verbatim>\<open>ASG\<close> the last autoscaling group listed before
  the task definition, and a required key \<open>k\<close> exactly when the name of some variable
  contains \<open>k\<close>, with the value of the last such variable: it may hold only some of the
  required keys. If the description has no container, IndexError is raised; if the
  description raises, no dictionary is returned.
\<close>

theorem get_resources_keys:
  assumes "list_stack_resources c stack_name = Inr rs"
  shows
    "(find (\<lambda>r. contains ''AWS::ECS::TaskDefinition'' (ResourceType r)) rs = None \<longrightarrow>
        get_resources c stack_name =
          ([], Inr (Some (\<lambda>k. if k = ''CLUSTER'' then Some stack_name
                              else if k = ''ASG''
                              then map_option PhysicalResourceId
                                     (find (\<lambda>r. contains ''AWS::AutoScaling::AutoScalingGroup''
                                                  (ResourceType r)) (rev rs))
                              else None)))) \<and>
     (\<forall>r environment others.
        find (\<lambda>r. contains ''AWS::ECS::TaskDefinition'' (ResourceType r)) rs = Some r \<and>
        describe_task_definition c (PhysicalResourceId r) = Inr (environment # others) \<longrightarrow>
        get_resources c stack_name =
          ([], Inr (Some (\<lambda>k. if k \<in> set key
                              then map_option env_value
                                     (find (\<lambda>e. contains k (env_name e)) (rev environment))
                              else if k = ''CLUSTER'' then Some stack_name
                              else if k = ''ASG''
                              then map_option PhysicalResourceId
                                     (find (\<lambda>r. contains ''AWS::AutoScaling::AutoScalingGroup''
                                                  (ResourceType r))
                                        (rev (takeWhile
                                                (\<lambda>r. \<not> contains ''AWS::ECS::TaskDefinition''
                                                          (ResourceType r)) rs)))
                              else None)))) \<and>
     (\<forall>r. find (\<lambda>r. contains ''AWS::ECS::TaskDefinition'' (ResourceType r)) rs = Some r \<and>
          describe_task_definition c (PhysicalResourceId r) = Inr [] \<longrightarrow>
          get_resources c stack_name = ([], Inl IndexError)) \<and>
     (\<forall>r e. find (\<lambda>r. contains ''AWS::ECS::TaskDefinition'' (ResourceType r)) rs = Some r \<and>
            describe_task_definition c (PhysicalResourceId r) = Inl e \<longrightarrow>
            (\<forall>res. snd (get_resources c stack_name) \<noteq> Inr (Some res)))"
proof (intro conjI allI impI)
  assume "find (\<lambda>r. contains ''AWS::ECS::TaskDefinition'' (ResourceType r)) rs = None"
  then show "get_resources c stack_name =
          ([], Inr (Some (\<lambda>k. if k = ''CLUSTER'' then Some stack_name
                              else if k = ''ASG''
                              then map_option PhysicalResourceId
                                     (find (\<lambda>r. contains ''AWS::AutoScaling::AutoScalingGroup''
                                                  (ResourceType r)) (rev rs))
                              else None)))"
    by (rule get_resources_no_task [OF assms])
next
  fix r environment others
  assume "find (\<lambda>r. contains ''AWS::ECS::TaskDefinition'' (ResourceType r)) rs = Some r \<and>
        describe_task_definition c (PhysicalResourceId r) = Inr (environment # others)"
  then show "get_resources c stack_name =
          ([], Inr (Some (\<lambda>k. if k \<in> set key
                              then map_option env_value
                                     (find (\<lambda>e. contains k (env_name e)) (rev environment))
                              else if k = ''CLUSTER'' then Some stack_name
                              else if k = ''ASG''
                              then map_option PhysicalResourceId
                                     (find (\<lambda>r. contains ''AWS::AutoScaling::AutoScalingGroup''
                                                  (ResourceType r))
                                        (rev (takeWhile
                                                (\<lambda>r. \<not> contains ''AWS::ECS::TaskDefinition''
                                                          (ResourceType r)) rs)))
                              else None)))"
    using get_resources_task [OF assms] by blast
next
  fix r
  assume "find (\<lambda>r. contains ''AWS::ECS::TaskDefinition'' (ResourceType r)) rs = Some r \<and>
          describe_task_definition c (PhysicalResourceId r) = Inr []"
  then show "get_resources c stack_name = ([], Inl IndexError)"
    using get_resources_no_container [OF assms] by blast
next
  fix r e res
  assume "find (\<lambda>r. contains ''AWS::ECS::TaskDefinition'' (ResourceType r)) rs = Some r \<and>
            describe_task_definition c (PhysicalResourceId r) = Inl e"
  then have "stack_lookup c stack_name = Inl e"
    using assms by (intro stack_lookup_error) simp
  then show "snd (get_resources c stack_name) \<noteq> Inr (Some res)"
    by (auto simp: get_resources_def split: exn.splits)
qed

text \<open>
  The theorem at a stack that lists an autoscaling group, a task definition that sets two
  of the six variables, and a second autoscaling group after it.
\<close>

theorem get_resources_keys_witness:
  "\<exists>res. get_resources asg_task_cloud ''demo-cluster'' = ([], Inr (Some res)) \<and>
         res ''CLUSTER'' = Some ''demo-cluster'' \<and> res ''ASG'' = Some ''asg-1'' \<and>
         res ''PROCESSOR'' = Some ''yolov5-proc'' \<and> res ''VIDEO_QUEUE'' = Some ''demo-video-q'' \<and>
         res ''TRACK_QUEUE'' = None \<and> res ''DEAD_QUEUE'' = None \<and>
         res ''TRACK_BUCKET'' = None \<and> res ''VIDEO_BUCKET'' = None"
proof -
  let ?asg1 = "\<lparr>ResourceType = ''AWS::AutoScaling::AutoScalingGroup'', PhysicalResourceId = ''asg-1''\<rparr>"
  let ?td = "\<lparr>ResourceType = ''AWS::ECS::TaskDefinition'', PhysicalResourceId = ''arn:task''\<rparr>"
  let ?asg2 = "\<lparr>ResourceType = ''AWS::AutoScaling::AutoScalingGroup'', PhysicalResourceId = ''asg-2''\<rparr>"
  let ?env = "[\<lparr>env_name = ''VIDEO_QUEUE'', env_value = ''demo-video-q''\<rparr>,
               \<lparr>env_name = ''PROCESSOR'', env_value = ''yolov5-proc''\<rparr>]"
  have l: "list_stack_resources asg_task_cloud ''demo-cluster'' = Inr [?asg1, ?td, ?asg2]"
    by (simp add: asg_task_cloud_def)
  have f: "find (\<lambda>r. contains ''AWS::ECS::TaskDefinition'' (ResourceType r)) [?asg1, ?td, ?asg2] =
             Some ?td \<and>
           describe_task_definition asg_task_cloud (PhysicalResourceId ?td) = Inr (?env # [])"
    by (simp add: asg_task_cloud_def)
  have t: "rev (takeWhile (\<lambda>r. \<not> contains ''AWS::ECS::TaskDefinition'' (ResourceType r))
                  [?asg1, ?td, ?asg2]) = [?asg1]"
    by simp
  from get_resources_keys [OF l, THEN conjunct2, THEN conjunct1, rule_format, OF f]
  have "get_resources asg_task_cloud ''demo-cluster'' =
          ([], Inr (Some (\<lambda>k. if k \<in> set key
                              then map_option env_value
                                     (find (\<lambda>e. contains k (env_name e)) (rev ?env))
                              else if k = ''CLUSTER'' then Some ''demo-cluster''
                              else if k = ''ASG''
                              then map_option PhysicalResourceId
                                     (find (\<lambda>r. contains ''AWS::AutoScaling::AutoScalingGroup''
                                                  (ResourceType r)) [?asg1])
                              else None)))"
    by (simp only: t)
  then show ?thesis by (simp add: key_def)
qed

text \<open>
  The claim C1 as stated fails: a stack that lists an autoscaling group and no task
  definition resolves to a dictionary with \<^verbatim>\<open>CLUSTER\<close> and \<^verbatim>\<open>ASG\<close> only, returned as
  the successful result, not to "no resources"; and a task definition that sets four of
  the six variables resolves to a dictionary without \<^verbatim>\<open>TRACK_QUEUE\<close> and \<^verbatim>\<open>DEAD_QUEUE\<close>.
\<close>

theorem get_resources_partial_map:
  "get_resources asg_only_cloud ''demo-cluster'' =
     ([], Inr (Some [''CLUSTER'' \<mapsto> ''demo-cluster'', ''ASG'' \<mapsto> ''asg-1''])) \<and>
   [''CLUSTER'' \<mapsto> ''demo-cluster'', ''ASG'' \<mapsto> ''asg-1''] ''PROCESSOR'' = None \<and>
   get_resources demo_cloud ''demo-cluster'' =
     ([], Inr (Some [''CLUSTER'' \<mapsto> ''demo-cluster'', ''VIDEO_QUEUE'' \<mapsto> ''demo-video-q'',
                     ''VIDEO_BUCKET'' \<mapsto> ''demo-in'', ''TRACK_BUCKET'' \<mapsto> ''demo-out'',
                     ''PROCESSOR'' \<mapsto> ''yolov5-proc'']))"
  by (simp add: get_resources_def stack_lookup_def asg_only_cloud_def demo_cloud_def key_def)

text \<open>
  Claim C9, as the code has it. The lookup fails when \<^verbatim>\<open>list_stack_resources\<close> raises, or
  when \<^verbatim>\<open>describe_task_definition\<close> raises for the first task definition listed. In both
  cases: a ClientError whose code contains \<^verbatim>\<open>AccessDenied\<close> is logged and raises
  \<^verbatim>\<open>Exception('Access denied')\<close> after the critical line that asks to verify the
  credentials; one whose code contains \<^verbatim>\<open>ExpiredToken\<close> (and not \<^verbatim>\<open>AccessDenied\<close>) raises
  \<^verbatim>\<open>Exception('Token expired')\<close> after the line that asks to re-authenticate; every
  other ClientError is logged and the function returns \<open>None\<close>; an exception that is not
  a ClientError propagates as it is. \<open>None\<close> is returned in no other case.
\<close>

theorem get_resources_failures:
  "((list_stack_resources c stack_name = Inl e \<or>
     (list_stack_resources c stack_name = Inr rs \<and>
      find (\<lambda>r. contains ''AWS::ECS::TaskDefinition'' (ResourceType r)) rs = Some r \<and>
      describe_task_definition c (PhysicalResourceId r) = Inl e)) \<longrightarrow>
      (\<forall>code msg. e = ClientError code msg \<longrightarrow>
         get_resources c stack_name =
           (if contains ''AccessDenied'' code then
              ([(ERROR, msg),
                (CRITICAL, ''Access denied; verify you are using the correct AWS credentials'')],
               Inl (Exception ''Access denied''))
            else if contains ''ExpiredToken'' code then
              ([(ERROR, msg),
                (CRITICAL, ''Token expired; you need to re-authenticate your AWS credentials'')],
               Inl (Exception ''Token expired''))
            else ([(ERROR, msg)], Inr None))) \<and>
      ((\<forall>code msg. e \<noteq> ClientError code msg) \<longrightarrow> get_resources c stack_name = ([], Inl e))) \<and>
   (snd (get_resources c stack_name) = Inr None \<longleftrightarrow>
      (\<exists>code msg.
         \<not> contains ''AccessDenied'' code \<and> \<not> contains ''ExpiredToken'' code \<and>
         (list_stack_resources c stack_name = Inl (ClientError code msg) \<or>
          (\<exists>rs r. list_stack_resources c stack_name = Inr rs \<and>
             find (\<lambda>r. contains ''AWS::ECS::TaskDefinition'' (ResourceType r)) rs = Some r \<and>
             describe_task_definition c (PhysicalResourceId r) = Inl (ClientError code msg)))))"
  (is "(?H \<longrightarrow> ?A \<and> ?B) \<and> ?C")
proof -
  have "?H \<longrightarrow> ?A \<and> ?B"
  proof (rule impI)
    assume ?H
    then have l: "stack_lookup c stack_name = Inl e" by (rule stack_lookup_error)
    have ?A using l by (simp add: get_resources_def)
    moreover have ?B using l by (cases e) (simp_all add: get_resources_def)
    ultimately show "?A \<and> ?B" by (rule conjI)
  qed
  moreover have ?C
  proof
    assume n: "snd (get_resources c stack_name) = Inr None"
    then obtain code msg where l: "stack_lookup c stack_name = Inl (ClientError code msg)"
      and c: "\<not> contains ''AccessDenied'' code" "\<not> contains ''ExpiredToken'' code"
      by (auto simp: get_resources_def split: sum.splits exn.splits if_splits)
    from stack_lookup_error_cases [OF l] c
    show "\<exists>code msg.
         \<not> contains ''AccessDenied'' code \<and> \<not> contains ''ExpiredToken'' code \<and>
         (list_stack_resources c stack_name = Inl (ClientError code msg) \<or>
          (\<exists>rs r. list_stack_resources c stack_name = Inr rs \<and>
             find (\<lambda>r. contains ''AWS::ECS::TaskDefinition'' (ResourceType r)) rs = Some r \<and>
             describe_task_definition c (PhysicalResourceId r) = Inl (ClientError code msg)))"
      by blast
  next
    assume "\<exists>code msg.
         \<not> contains ''AccessDenied'' code \<and> \<not> contains ''ExpiredToken'' code \<and>
         (list_stack_resources c stack_name = Inl (ClientError code msg) \<or>
          (\<exists>rs r. list_stack_resources c stack_name = Inr rs \<and>
             find (\<lambda>r. contains ''AWS::ECS::TaskDefinition'' (ResourceType r)) rs = Some r \<and>
             describe_task_definition c (PhysicalResourceId r) = Inl (ClientError code msg)))"
    then obtain code msg where c: "\<not> contains ''AccessDenied'' code" "\<not> contains ''ExpiredToken'' code"
      and l: "stack_lookup c stack_name = Inl (ClientError code msg)"
      using stack_lookup_error by blast
    then show "snd (get_resources c stack_name) = Inr None"
      by (simp add: get_resources_def)
  qed
  ultimately show ?thesis by (rule conjI)
qed

text \<open>
  The theorem at six lookups: the listing is denied, the token has expired, the stack is
  unknown, the connection fails; and the description of the task definition is denied,
  or throttled.
\<close>

theorem get_resources_failures_witness:
  "get_resources access_denied_cloud ''demo-cluster'' =
     ([(ERROR, ''not authorized''),
       (CRITICAL, ''Access denied; verify you are using the correct AWS credentials'')],
      Inl (Exception ''Access denied'')) \<and>
   get_resources expired_token_cloud ''demo-cluster'' =
     ([(ERROR, ''token expired''),
       (CRITICAL, ''Token expired; you need to re-authenticate your AWS credentials'')],
      Inl (Exception ''Token expired'')) \<and>
   get_resources unknown_stack_cloud ''demo-cluster'' = ([(ERROR, ''Stack does not exist'')], Inr None) \<and>
   get_resources offline_cloud ''demo-cluster'' = ([], Inl (OtherError ''EndpointConnectionError'')) \<and>
   get_resources describe_denied_cloud ''demo-cluster'' =
     ([(ERROR, ''not authorized to describe''),
       (CRITICAL, ''Access denied; verify you are using the correct AWS credentials'')],
      Inl (Exception ''Access denied'')) \<and>
   get_resources describe_throttled_cloud ''demo-cluster'' = ([(ERROR, ''rate exceeded'')], Inr None)"
proof -
  let ?td = "\<lparr>ResourceType = ''AWS::ECS::TaskDefinition'', PhysicalResourceId = ''arn:task''\<rparr>"
  have a: "list_stack_resources access_denied_cloud ''demo-cluster'' =
             Inl (ClientError ''AccessDeniedException'' ''not authorized'')"
    by (simp add: access_denied_cloud_def)
  have b: "list_stack_resources expired_token_cloud ''demo-cluster'' =
             Inl (ClientError ''ExpiredTokenException'' ''token expired'')"
    by (simp add: expired_token_cloud_def)
  have c: "list_stack_resources unknown_stack_cloud ''demo-cluster'' =
             Inl (ClientError ''ValidationError'' ''Stack does not exist'')"
    by (simp add: unknown_stack_cloud_def)
  have d: "list_stack_resources offline_cloud ''demo-cluster'' =
             Inl (OtherError ''EndpointConnectionError'')"
    by (simp add: offline_cloud_def)
  have e: "list_stack_resources describe_denied_cloud ''demo-cluster'' = Inr [?td] \<and>
           find (\<lambda>r. contains ''AWS::ECS::TaskDefinition'' (ResourceType r)) [?td] = Some ?td \<and>
           describe_task_definition describe_denied_cloud (PhysicalResourceId ?td) =
             Inl (ClientError ''AccessDeniedException'' ''not authorized to describe'')"
    by (simp add: describe_denied_cloud_def)
  have f: "list_stack_resources describe_throttled_cloud ''demo-cluster'' = Inr [?td] \<and>
           find (\<lambda>r. contains ''AWS::ECS::TaskDefinition'' (ResourceType r)) [?td] = Some ?td \<and>
           describe_task_definition describe_throttled_cloud (PhysicalResourceId ?td) =
             Inl (ClientError ''ThrottlingException'' ''rate exceeded'')"
    by (simp add: describe_throttled_cloud_def)
  have 1: "get_resources access_denied_cloud ''demo-cluster'' =
     ([(ERROR, ''not authorized''),
       (CRITICAL, ''Access denied; verify you are using the correct AWS credentials'')],
      Inl (Exception ''Access denied''))"
    using a get_resources_failures [of access_denied_cloud "''demo-cluster''"
        "ClientError ''AccessDeniedException'' ''not authorized''", THEN conjunct1]
    by simp
  have 2: "get_resources expired_token_cloud ''demo-cluster'' =
     ([(ERROR, ''token expired''),
       (CRITICAL, ''Token expired; you need to re-authenticate your AWS credentials'')],
      Inl (Exception ''Token expired''))"
    using b get_resources_failures [of expired_token_cloud "''demo-cluster''"
        "ClientError ''ExpiredTokenException'' ''token expired''", THEN conjunct1]
    by simp
  have 3: "get_resources unknown_stack_cloud ''demo-cluster'' =
     ([(ERROR, ''Stack does not exist'')], Inr None)"
    using c get_resources_failures [of unknown_stack_cloud "''demo-cluster''"
        "ClientError ''ValidationError'' ''Stack does not exist''", THEN conjunct1]
    by simp
  have 4: "get_resources offline_cloud ''demo-cluster'' =
     ([], Inl (OtherError ''EndpointConnectionError''))"
    using d get_resources_failures [of offline_cloud "''demo-cluster''"
        "OtherError ''EndpointConnectionError''", THEN conjunct1]
    by simp
  have 5: "get_resources describe_denied_cloud ''demo-cluster'' =
     ([(ERROR, ''not authorized to describe''),
       (CRITICAL, ''Access denied; verify you are using the correct AWS credentials'')],
      Inl (Exception ''Access denied''))"
    using e get_resources_failures [of describe_denied_cloud "''demo-cluster''"
        "ClientError ''AccessDeniedException'' ''not authorized to describe''" "[?td]" ?td,
        THEN conjunct1]
    by simp
  have 6: "get_resources describe_throttled_cloud ''demo-cluster'' =
     ([(ERROR, ''rate exceeded'')], Inr None)"
    using f get_resources_failures [of describe_throttled_cloud "''demo-cluster''"
        "ClientError ''ThrottlingException'' ''rate exceeded''" "[?td]" ?td, THEN conjunct1]
    by simp
  from 1 2 3 4 5 6 show ?thesis by (intro conjI)
qed

text \<open>
  The claim C9 as stated fails in its last part: a lookup that fails with a ClientError
  of another code (here the \<^verbatim>\<open>ValidationError\<close> of a stack that does not exist) is not
  propagated; the function logs it and returns \<open>None\<close>.
\<close>

theorem get_resources_other_error_is_none:
  "list_stack_resources unknown_stack_cloud ''demo-cluster'' =
     Inl (ClientError ''ValidationError'' ''Stack does not exist'') \<and>
   get_resources unknown_stack_cloud ''demo-cluster'' = ([(ERROR, ''Stack does not exist'')], Inr None)"
  by (simp add: get_resources_def stack_lookup_def unknown_stack_cloud_def)

section \<open>Tag validation\<close>

lemma add_days_numeral: "add_days (numeral k) t = add_days (pred_numeral k) (next_day t)"
  by (simp add: numeral_eq_Suc)

lemma str_nat_small: "n < 10 \<Longrightarrow> str_nat n = [digit_char n]"
  by simp

lemma str_nat_large: "10 \<le> n \<Longrightarrow> str_nat n = str_nat (n div 10) @ [digit_char n]"
  by simp

lemma demo_deletion_date: "strftime (add_days 90 demo_now) = ''20240314T070509Z''"
  by (simp add: add_days_numeral strftime_def demo_now_def pad2_def str_nat_small str_nat_large
      digit_char_def next_day_def days_in_month_def is_leap_def del: str_nat.simps)

lemma demo_username: "get_username (Inr demo_arn) = Inr ''dcline''"
  by (simp add: get_username_def split_def demo_arn_def)

lemma tag_value_ok_iff: "tag_value_ok t = list_ex (\<lambda>char. contains char (Value t)) allowed"
  by (simp add: tag_value_ok_def)

lemma allowed_a: "''a'' \<in> set allowed" and allowed_0: "''0'' \<in> set allowed"
  and allowed_d: "''d'' \<in> set allowed" and allowed_p: "''p'' \<in> set allowed"
  and allowed_2: "''2'' \<in> set allowed" and allowed_9: "''9'' \<in> set allowed"
  by (simp_all add: allowed_def allowed_chars_def ascii_letters_def ascii_lowercase_def
      ascii_uppercase_def digits_def)

lemma tag_value_okI: "char \<in> set allowed \<Longrightarrow> contains char (Value t) \<Longrightarrow> tag_value_ok t"
  by (auto simp: tag_value_ok_def list_ex_iff)

lemma demo_check:
  "check_tags
     [\<lparr>Key = ''mbari:project-number'', Value = ''902005''\<rparr>,
      \<lparr>Key = ''mbari:owner'', Value = ''dcline''\<rparr>,
      \<lparr>Key = ''mbari:description'', Value = ''bad value!''\<rparr>,
      \<lparr>Key = ''mbari:stage'', Value = ''prod''\<rparr>,
      \<lparr>Key = ''mbari:application'', Value = ''detection''\<rparr>,
      \<lparr>Key = ''mbari:deletion-date'', Value = ''20240314T070509Z''\<rparr>,
      \<lparr>Key = ''mbari:created-by'', Value = ''dcline''\<rparr>] = Inr ()"
proof -
  have "tag_value_ok \<lparr>Key = ''mbari:project-number'', Value = ''902005''\<rparr>"
    by (rule tag_value_okI [OF allowed_9]) simp
  moreover have "tag_value_ok \<lparr>Key = ''mbari:owner'', Value = ''dcline''\<rparr>"
    by (rule tag_value_okI [OF allowed_d]) simp
  moreover have "tag_value_ok \<lparr>Key = ''mbari:description'', Value = ''bad value!''\<rparr>"
    by (rule tag_value_okI [OF allowed_a]) simp
  moreover have "tag_value_ok \<lparr>Key = ''mbari:stage'', Value = ''prod''\<rparr>"
    by (rule tag_value_okI [OF allowed_p]) simp
  moreover have "tag_value_ok \<lparr>Key = ''mbari:application'', Value = ''detection''\<rparr>"
    by (rule tag_value_okI [OF allowed_d]) simp
  moreover have "tag_value_ok \<lparr>Key = ''mbari:deletion-date'', Value = ''20240314T070509Z''\<rparr>"
    by (rule tag_value_okI [OF allowed_2]) simp
  moreover have "tag_value_ok \<lparr>Key = ''mbari:created-by'', Value = ''dcline''\<rparr>"
    by (rule tag_value_okI [OF allowed_d]) simp
  ultimately show ?thesis by simp
qed

text \<open>
  Claim C2 fails on the code. The check rejects a value only when it contains no allowed
  character at all (\<^verbatim>\<open>any\<close> over the allowed characters), so a description with a
  space and an exclamation mark, both outside the allowed class, passes and is returned
  in the tag set.
\<close>

theorem get_tags_accepts_special_characters:
  "get_tags demo_parser (Inr demo_arn) demo_now ''bad value!'' =
     Inr [\<lparr>Key = ''mbari:project-number'', Value = ''902005''\<rparr>,
          \<lparr>Key = ''mbari:owner'', Value = ''dcline''\<rparr>,
          \<lparr>Key = ''mbari:description'', Value = ''bad value!''\<rparr>,
          \<lparr>Key = ''mbari:stage'', Value = ''prod''\<rparr>,
          \<lparr>Key = ''mbari:application'', Value = ''detection''\<rparr>,
          \<lparr>Key = ''mbari:deletion-date'', Value = ''20240314T070509Z''\<rparr>,
          \<lparr>Key = ''mbari:created-by'', Value = ''dcline''\<rparr>]"
  by (simp add: get_tags_def demo_parser_def config_call_def demo_username demo_deletion_date
      demo_check Let_def del: check_tags.simps)


section \<open>Upload: target keys\<close>

lemma Volumes_distinct: "distinct ''Volumes/''" "''Volumes/'' \<noteq> []"
  by simp_all

text \<open>
  Claim C7, as the code has it. The target key of a file is the path of the destination
  URL, then the parent directory of the file with everything up to and including the
  last \<^verbatim>\<open>Volumes/\<close> removed (the whole parent directory when \<^verbatim>\<open>Volumes/\<close> does not occur in
  it), then \<^verbatim>\<open>/\<close> and the file name. No other mount root is stripped.
\<close>

theorem video_target_prefix_strips_Volumes:
  "(\<not> contains ''Volumes/'' (as_posix (parent v)) \<longrightarrow>
      video_target_prefix input_s3 v = path input_s3 @ as_posix (parent v) @ ''/'' @ path_name v) \<and>
   (\<forall>p r. as_posix (parent v) = p @ ''Volumes/'' @ r \<and> \<not> contains ''Volumes/'' r \<longrightarrow>
      video_target_prefix input_s3 v = path input_s3 @ r @ ''/'' @ path_name v)"
  using last_split_after [OF Volumes_distinct]
  by (auto simp: video_target_prefix_def video_prefix_path_def last_split_none)

lemma demo_video_parent: "as_posix (parent demo_video) = ''/'' @ ''Volumes/'' @ ''data/dive1''"
  by (simp add: demo_video_def)

lemma mnt_video_parent: "as_posix (parent mnt_video) = ''/mnt/data/dive1''"
  by (simp add: mnt_video_def)

text \<open>The theorem at a file below \<^verbatim>\<open>/Volumes/\<close> and at one that is not.\<close>

theorem video_target_prefix_strips_Volumes_witness:
  "video_target_prefix demo_s3 demo_video = ''data/dive1/clip1.mp4'' \<and>
   video_target_prefix demo_s3 mnt_video = ''/mnt/data/dive1/clip1.mp4''"
proof -
  have "\<not> contains ''Volumes/'' ''data/dive1''" by simp
  with demo_video_parent
    video_target_prefix_strips_Volumes [of demo_video demo_s3, THEN conjunct2, rule_format,
      of "''/''" "''data/dive1''"]
  have 1: "video_target_prefix demo_s3 demo_video = ''data/dive1/clip1.mp4''"
    by (simp add: demo_s3_def demo_video_def)
  have "\<not> contains ''Volumes/'' (as_posix (parent mnt_video))"
    by (simp add: mnt_video_parent)
  with video_target_prefix_strips_Volumes [of mnt_video demo_s3, THEN conjunct1]
  have 2: "video_target_prefix demo_s3 mnt_video = ''/mnt/data/dive1/clip1.mp4''"
    by (simp add: demo_s3_def mnt_video_def)
  from 1 2 show ?thesis by simp
qed

text \<open>
  The scenario of claim C7 fails: for \<^verbatim>\<open>/mnt/data/dive1/clip1.mp4\<close> and the destination
  \<^verbatim>\<open>s3://bucket/in/\<close> the key keeps the whole parent directory \<^verbatim>\<open>/mnt/data/dive1\<close>; it is
  not \<^verbatim>\<open>in/dive1/clip1.mp4\<close>.
\<close>

theorem video_target_prefix_keeps_mount_root:
  "video_target_prefix (urlparse_s3 ''s3://bucket/in/'') mnt_video = ''/in//mnt/data/dive1/clip1.mp4'' \<and>
   video_target_prefix (urlparse_s3 ''s3://bucket/in/'') mnt_video \<noteq> ''in/dive1/clip1.mp4''"
  by (simp add: video_target_prefix_def video_prefix_path_def mnt_video_def split_def urlparse_s3_def)



section \<open>Upload: the probe, the transfer and the tagging\<close>

lemma s3_load_objects: "s3_load bucket k w = (r, w') \<Longrightarrow> objects w' = objects w"
  by (auto simp: s3_load_def next_fault_def record_call_def split: list.splits option.splits if_splits)

lemma s3_load_calls: "s3_load bucket k w = (r, w') \<Longrightarrow> calls w' = calls w @ [HeadObject bucket k]"
  by (auto simp: s3_load_def next_fault_def record_call_def split: list.splits option.splits if_splits)

lemma s3_load_faults:
  "s3_load bucket k w = (r, w') \<Longrightarrow> faults w' = tl (faults w)"
  by (auto simp: s3_load_def next_fault_def record_call_def split: list.splits option.splits if_splits)

lemma s3_load_present:
  "s3_load bucket k w = (r, w') \<Longrightarrow> objects w (bucket, k) \<noteq> None \<Longrightarrow>
   \<not> list_ex is_404 (faults w) \<Longrightarrow> \<not> is_404 r"
  by (auto simp: s3_load_def next_fault_def record_call_def is_404_def
      split: list.splits option.splits if_splits exn.splits)

lemma try_upload_other:
  "x \<noteq> (bucket, k) \<Longrightarrow> objects (try_upload fs v bucket k error_line w) x = objects w x"
  by (auto simp: try_upload_def s3_upload_fileobj_def next_fault_def record_call_def
      split: list.splits option.splits sum.splits)

lemma tagging_ok:
  "s3_put_object_tagging bucket k tags w = (None, w') \<Longrightarrow> tagged tags w' (bucket, k)"
  by (auto simp: s3_put_object_tagging_def next_fault_def record_call_def tagged_def
      split: list.splits option.splits)

lemma tagging_other:
  "s3_put_object_tagging bucket k tags w = (r, w') \<Longrightarrow> x \<noteq> (bucket, k) \<Longrightarrow>
   objects w' x = objects w x"
  by (auto simp: s3_put_object_tagging_def next_fault_def record_call_def
      split: list.splits option.splits)

lemma tagging_same:
  "s3_put_object_tagging bucket k tags w = (r, w') \<Longrightarrow> tagged tags w (bucket, k) \<Longrightarrow>
   objects w' = objects w"
  by (auto simp: s3_put_object_tagging_def next_fault_def record_call_def tagged_def
      split: list.splits option.splits)

lemma tagging_calls:
  "s3_put_object_tagging bucket k tags w = (r, w') \<Longrightarrow>
   calls w' = calls w @ [PutObjectTagging bucket k tags] \<and> faults w' = tl (faults w)"
  by (auto simp: s3_put_object_tagging_def next_fault_def record_call_def
      split: list.splits option.splits)

lemma upload_and_tag_ok:
  assumes "upload_and_tag fs v bucket k error_line found_line tags w = (None, w')"
  shows "tagged tags w' (bucket, k)" and "x \<noteq> (bucket, k) \<Longrightarrow> objects w' x = objects w x"
proof -
  obtain r w1 where l: "s3_load bucket k w = (r, w1)" by (cases "s3_load bucket k w")
  have o1: "objects w1 = objects w" by (rule s3_load_objects [OF l])
  from assms l obtain wt where t: "s3_put_object_tagging bucket k tags wt = (None, w')"
    and wt: "wt = try_upload fs v bucket k error_line w1 \<or> wt = record_call (Print found_line) w1"
    by (auto simp: upload_and_tag_def split: option.splits exn.splits if_splits)
  from tagging_ok [OF t] show "tagged tags w' (bucket, k)" .
  assume x: "x \<noteq> (bucket, k)"
  then have "objects w' x = objects wt x" using tagging_other [OF t] by simp
  also have "objects wt x = objects w1 x"
    using wt x by (auto simp: try_upload_other record_call_def)
  finally show "objects w' x = objects w x" using o1 by simp
qed

lemma tagged_cong: "objects w' x = objects w x \<Longrightarrow> tagged tags w' x = tagged tags w x"
  by (simp add: tagged_def)

lemma video_data_loop_keeps:
  "video_data_loop fs vs input_s3 tags w = (None, w') \<Longrightarrow> tagged tags w x \<Longrightarrow> tagged tags w' x"
proof (induction vs arbitrary: w)
  case Nil
  then show ?case by simp
next
  case (Cons v vs)
  from Cons.prems(1) obtain w1 where
    b: "video_data_body fs input_s3 tags v w = (None, w1)" and
    l: "video_data_loop fs vs input_s3 tags w1 = (None, w')"
    by (auto split: prod.splits option.splits)
  have "tagged tags w1 x"
  proof (cases "x = (netloc input_s3, video_target_prefix input_s3 v)")
    case True
    then show ?thesis using upload_and_tag_ok(1) [OF b [unfolded video_data_body_def]] by simp
  next
    case False
    then show ?thesis
      using upload_and_tag_ok(2) [OF b [unfolded video_data_body_def] False] Cons.prems(2)
      by (simp add: tagged_def)
  qed
  then show ?case using Cons.IH [OF l] by simp
qed

lemma video_data_loop_tags:
  "video_data_loop fs vs input_s3 tags w = (None, w') \<Longrightarrow> v \<in> set vs \<Longrightarrow>
   tagged tags w' (netloc input_s3, video_target_prefix input_s3 v)"
proof (induction vs arbitrary: w)
  case Nil
  then show ?case by simp
next
  case (Cons a vs)
  from Cons.prems(1) obtain w1 where
    b: "video_data_body fs input_s3 tags a w = (None, w1)" and
    l: "video_data_loop fs vs input_s3 tags w1 = (None, w')"
    by (auto split: prod.splits option.splits)
  show ?case
  proof (cases "v \<in> set vs")
    case True
    then show ?thesis using Cons.IH [OF l] by simp
  next
    case False
    with Cons.prems(2) have "v = a" by simp
    then have "tagged tags w1 (netloc input_s3, video_target_prefix input_s3 v)"
      using upload_and_tag_ok(1) [OF b [unfolded video_data_body_def]] by simp
    then show ?thesis using video_data_loop_keeps [OF l] by simp
  qed
qed

lemma list_ex_tl: "\<not> list_ex P xs \<Longrightarrow> \<not> list_ex P (tl xs)"
  by (cases xs) auto

lemma upload_and_tag_again:
  assumes t: "tagged tags w (bucket, k)" and f: "\<not> list_ex is_404 (faults w)"
    and run: "upload_and_tag fs v bucket k error_line found_line tags w = (r, w')"
  shows "objects w' = objects w \<and> filter is_upload (calls w') = filter is_upload (calls w) \<and>
     \<not> list_ex is_404 (faults w')"
proof -
  obtain p w1 where l: "s3_load bucket k w = (p, w1)" by (cases "s3_load bucket k w")
  have o1: "objects w1 = objects w" by (rule s3_load_objects [OF l])
  have c1: "calls w1 = calls w @ [HeadObject bucket k]" by (rule s3_load_calls [OF l])
  have f1: "faults w1 = tl (faults w)" by (rule s3_load_faults [OF l])
  from t have present: "objects w (bucket, k) \<noteq> None" by (auto simp: tagged_def split: option.splits)
  have n404: "\<not> is_404 p" by (rule s3_load_present [OF l present f])
  show ?thesis
  proof (cases p)
    case None
    with run l have tg: "s3_put_object_tagging bucket k tags (record_call (Print found_line) w1) = (r, w')"
      by (simp add: upload_and_tag_def)
    have "tagged tags (record_call (Print found_line) w1) (bucket, k)"
      using t o1 by (simp add: tagged_def record_call_def)
    from tagging_same [OF tg this] tagging_calls [OF tg] o1 c1 f1 f
    show ?thesis by (simp add: record_call_def is_upload_def list_ex_tl)
  next
    case (Some e)
    with run l n404 have "w' = w1"
      by (auto simp: upload_and_tag_def is_404_def split: exn.splits if_splits)
    then show ?thesis using o1 c1 f1 f by (simp add: is_upload_def list_ex_tl)
  qed
qed

lemma video_data_loop_again:
  "\<forall>v\<in>set vs. tagged tags w (netloc input_s3, video_target_prefix input_s3 v) \<Longrightarrow>
   \<not> list_ex is_404 (faults w) \<Longrightarrow>
   video_data_loop fs vs input_s3 tags w = (r, w') \<Longrightarrow>
   objects w' = objects w \<and> filter is_upload (calls w') = filter is_upload (calls w)"
proof (induction vs arbitrary: w)
  case Nil
  then show ?case by simp
next
  case (Cons v vs)
  obtain rb w1 where b: "video_data_body fs input_s3 tags v w = (rb, w1)"
    by (cases "video_data_body fs input_s3 tags v w")
  from Cons.prems(1) have tv: "tagged tags w (netloc input_s3, video_target_prefix input_s3 v)"
    by simp
  from upload_and_tag_again [OF tv Cons.prems(2) b [unfolded video_data_body_def]]
  have o: "objects w1 = objects w"
    and c: "filter is_upload (calls w1) = filter is_upload (calls w)"
    and f: "\<not> list_ex is_404 (faults w1)"
    by simp_all
  show ?case
  proof (cases rb)
    case (Some e)
    with b Cons.prems(3) have "w' = w1" by simp
    then show ?thesis using o c by simp
  next
    case None
    with b Cons.prems(3) have l: "video_data_loop fs vs input_s3 tags w1 = (r, w')" by simp
    have "\<forall>v\<in>set vs. tagged tags w1 (netloc input_s3, video_target_prefix input_s3 v)"
      using Cons.prems(1) o by (simp add: tagged_def)
    from Cons.IH [OF this f l] show ?thesis using o c by simp
  qed
qed

lemma demo_video_posix: "as_posix demo_video = ''/Volumes/data/dive1/clip1.mp4''"
  by (simp add: demo_video_def)

lemma demo_video_target: "video_target_prefix demo_s3 demo_video = ''data/dive1/clip1.mp4''"
  by (simp add: video_target_prefix_def video_prefix_path_def demo_video_def demo_s3_def split_def)

lemma demo_uploading_line:
  "uploading_line demo_video ''bucket'' ''data/dive1/clip1.mp4'' =
     ''Uploading /Volumes/data/dive1/clip1.mp4 to s3://bucket/data/dive1/clip1.mp4...''"
  by (simp add: uploading_line_def demo_video_posix)

lemma probe_error_propagates:
  "faults w = Some e # rest \<Longrightarrow> \<not> is_404 (Some e) \<Longrightarrow>
   upload_and_tag fs v bucket k error_line found_line tags w =
     (Some e, w\<lparr>faults := rest, calls := calls w @ [HeadObject bucket k]\<rparr>)"
  by (cases e) (simp_all add: upload_and_tag_def s3_load_def next_fault_def record_call_def is_404_def)

lemma not_found_uploads:
  "objects w (bucket, k) = None \<Longrightarrow> faults w = None # None # None # rest \<Longrightarrow>
   fs (as_posix v) = Inr bytes \<Longrightarrow>
   upload_and_tag fs v bucket k error_line found_line tags w =
     (None, w\<lparr>objects := (objects w)((bucket, k) \<mapsto> \<lparr>content = bytes, tagging = tags\<rparr>),
              faults := rest,
              calls := calls w @ [HeadObject bucket k, Print (uploading_line v bucket k),
                                  UploadFileobj bucket k, PutObjectTagging bucket k tags]\<rparr>)"
  by (simp add: upload_and_tag_def s3_load_def next_fault_def record_call_def try_upload_def
      s3_upload_fileobj_def s3_put_object_tagging_def)

lemma upload_error_caught:
  "objects w (bucket, k) = None \<Longrightarrow> faults w = None # Some e # None # rest \<Longrightarrow>
   fs (as_posix v) = Inr bytes \<Longrightarrow>
   upload_and_tag fs v bucket k error_line found_line tags w =
     (Some (ClientError ''NoSuchKey'' ''The specified key does not exist.''),
      w\<lparr>faults := rest,
        calls := calls w @ [HeadObject bucket k, Print (uploading_line v bucket k),
                            UploadFileobj bucket k, Print (error_line e),
                            PutObjectTagging bucket k tags]\<rparr>)"
  by (simp add: upload_and_tag_def s3_load_def next_fault_def record_call_def try_upload_def
      s3_upload_fileobj_def s3_put_object_tagging_def)

lemma tagging_error_after_upload:
  "objects w (bucket, k) = None \<Longrightarrow> faults w = None # None # Some e # rest \<Longrightarrow>
   fs (as_posix v) = Inr bytes \<Longrightarrow>
   upload_and_tag fs v bucket k error_line found_line tags w =
     (Some e, w\<lparr>objects := (objects w)((bucket, k) \<mapsto> \<lparr>content = bytes, tagging = []\<rparr>),
                faults := rest,
                calls := calls w @ [HeadObject bucket k, Print (uploading_line v bucket k),
                                    UploadFileobj bucket k, PutObjectTagging bucket k tags]\<rparr>)"
  by (simp add: upload_and_tag_def s3_load_def next_fault_def record_call_def try_upload_def
      s3_upload_fileobj_def s3_put_object_tagging_def)

lemma tagging_error_when_found:
  "objects w (bucket, k) = Some obj \<Longrightarrow> faults w = None # Some e # rest \<Longrightarrow>
   upload_and_tag fs v bucket k error_line found_line tags w =
     (Some e, w\<lparr>faults := rest,
                calls := calls w @ [HeadObject bucket k, Print found_line,
                                    PutObjectTagging bucket k tags]\<rparr>)"
  by (simp add: upload_and_tag_def s3_load_def next_fault_def record_call_def
      s3_put_object_tagging_def)

lemma demo_first_run:
  "video_data demo_files [demo_video] demo_s3 demo_tag_set empty_world = (None, uploaded_world)"
proof -
  let ?w = "record_call (Print bandwidth_hint) empty_world"
  have "upload_and_tag demo_files demo_video ''bucket'' ''data/dive1/clip1.mp4''
          (\<lambda>e. ''error in uploading to s3'')
          (''Found s3://'' @ ''bucket'' @ ''/'' @ ''data/dive1/clip1.mp4'' @ '' ...skipping upload'')
          demo_tag_set ?w = (None, uploaded_world)"
    by (simp add: upload_and_tag_def s3_load_def next_fault_def record_call_def try_upload_def
        s3_upload_fileobj_def s3_put_object_tagging_def demo_uploading_line demo_video_posix
        demo_files_def empty_world_def uploaded_world_def)
  then show ?thesis
    by (simp add: video_data_def video_data_body_def demo_video_target) (simp add: demo_s3_def)
qed

text \<open>
  Claim C3. If a first run of \<open>video_data\<close> returns without an exception, then after it
  every target key holds an object that carries the full tag set; and a second run over
  the same files, destination and tags, against the store the first run left (whatever
  the service answers, as long as it does not answer 404 for an object that is there),
  makes no \<^verbatim>\<open>upload_fileobj\<close> call, leaves the store as it was, and every target key still
  carries the full tag set after it.
\<close>

theorem video_data_idempotent:
  assumes run1: "video_data fs videos input_s3 tags w0 = (None, w1)"
    and sane: "\<not> list_ex is_404 second_faults"
    and run2: "video_data fs videos input_s3 tags (w1\<lparr>faults := second_faults, calls := []\<rparr>) = (r2, w2)"
  shows "\<not> list_ex is_upload (calls w2) \<and> objects w2 = objects w1 \<and>
         (\<forall>v\<in>set videos. tagged tags w1 (netloc input_s3, video_target_prefix input_s3 v)) \<and>
         (\<forall>v\<in>set videos. tagged tags w2 (netloc input_s3, video_target_prefix input_s3 v))"
proof -
  have t1: "\<forall>v\<in>set videos. tagged tags w1 (netloc input_s3, video_target_prefix input_s3 v)"
    using video_data_loop_tags run1 by (auto simp: video_data_def)
  let ?w = "record_call (Print bandwidth_hint) (w1\<lparr>faults := second_faults, calls := []\<rparr>)"
  have "\<forall>v\<in>set videos. tagged tags ?w (netloc input_s3, video_target_prefix input_s3 v)"
    using t1 by (simp add: tagged_def record_call_def)
  moreover have "\<not> list_ex is_404 (faults ?w)"
    using sane by (simp add: record_call_def)
  moreover have "video_data_loop fs videos input_s3 tags ?w = (r2, w2)"
    using run2 by (simp add: video_data_def)
  ultimately have "objects w2 = objects ?w \<and> filter is_upload (calls w2) = filter is_upload (calls ?w)"
    by (rule video_data_loop_again)
  then have o: "objects w2 = objects w1" and c: "filter is_upload (calls w2) = []"
    by (simp_all add: record_call_def is_upload_def)
  from c have "\<not> list_ex is_upload (calls w2)"
    by (simp add: filter_empty_conv list_ex_iff)
  moreover have "\<forall>v\<in>set videos. tagged tags w2 (netloc input_s3, video_target_prefix input_s3 v)"
    using t1 o by (simp add: tagged_def)
  ultimately show ?thesis using o t1 by simp
qed

text \<open>The theorem at one file and an empty store: the first run uploads and tags the file,
  the second makes no upload.\<close>

theorem video_data_idempotent_witness:
  "video_data demo_files [demo_video] demo_s3 demo_tag_set empty_world = (None, uploaded_world) \<and>
   \<not> list_ex is_upload
       (calls (snd (video_data demo_files [demo_video] demo_s3 demo_tag_set
                      (uploaded_world\<lparr>faults := [], calls := []\<rparr>)))) \<and>
   tagged demo_tag_set uploaded_world (''bucket'', ''data/dive1/clip1.mp4'')"
proof -
  let ?second = "video_data demo_files [demo_video] demo_s3 demo_tag_set
                   (uploaded_world\<lparr>faults := [], calls := []\<rparr>)"
  have "\<not> list_ex is_404 []" by simp
  moreover have "?second = (fst ?second, snd ?second)" by simp
  ultimately have "\<not> list_ex is_upload (calls (snd ?second)) \<and>
      objects (snd ?second) = objects uploaded_world \<and>
      (\<forall>v\<in>set [demo_video]. tagged demo_tag_set uploaded_world
         (netloc demo_s3, video_target_prefix demo_s3 v)) \<and>
      (\<forall>v\<in>set [demo_video]. tagged demo_tag_set (snd ?second)
         (netloc demo_s3, video_target_prefix demo_s3 v))"
    by (rule video_data_idempotent [OF demo_first_run])
  then show ?thesis
    using demo_first_run by (simp add: demo_video_target) (simp add: demo_s3_def)
qed

lemma open_error_caught:
  "objects w (bucket, k) = None \<Longrightarrow> faults w = None # None # rest \<Longrightarrow>
   fs (as_posix v) = Inl e \<Longrightarrow>
   upload_and_tag fs v bucket k error_line found_line tags w =
     (Some (ClientError ''NoSuchKey'' ''The specified key does not exist.''),
      w\<lparr>faults := rest,
        calls := calls w @ [HeadObject bucket k, Print (error_line e),
                            PutObjectTagging bucket k tags]\<rparr>)"
  by (simp add: upload_and_tag_def s3_load_def next_fault_def record_call_def try_upload_def
      s3_put_object_tagging_def)

lemma video_data_loop_append:
  "video_data_loop fs (us @ vs) input_s3 tags w =
     (case video_data_loop fs us input_s3 tags w of
        (Some e, w') \<Rightarrow> (Some e, w')
      | (None, w') \<Rightarrow> video_data_loop fs vs input_s3 tags w')"
  by (induction us arbitrary: w) (auto split: prod.splits option.splits)

lemma video_data_at:
  assumes "video_data fs us input_s3 tags w0 = (None, w)"
  shows "video_data fs (us @ v # vs) input_s3 tags w0 =
           (case upload_and_tag fs v (netloc input_s3) (video_target_prefix input_s3 v)
                   (\<lambda>e. ''error in uploading to s3'')
                   (''Found s3://'' @ netloc input_s3 @ ''/'' @ video_target_prefix input_s3 v @
                    '' ...skipping upload'')
                   tags w of
              (Some e, w') \<Rightarrow> (Some e, w')
            | (None, w') \<Rightarrow> video_data_loop fs vs input_s3 tags w')"
  using assms by (simp add: video_data_def video_data_loop_append video_data_body_def)

lemma training_data_loop_append:
  "training_data_loop fs (us @ ds) input tags prefix_path w =
     (case training_data_loop fs us input tags prefix_path w of
        (Some e, prefix_path', w') \<Rightarrow> (Some e, prefix_path', w')
      | (None, prefix_path', w') \<Rightarrow> training_data_loop fs ds input tags prefix_path' w')"
  by (induction us arbitrary: w prefix_path) (auto simp: Let_def split: prod.splits option.splits)

lemma training_data_loop_at:
  assumes "training_data_loop fs us input tags None (record_call (Print bandwidth_hint) w0) =
             (None, prefix_path, w)"
  shows "training_data_loop fs (us @ d # ds) input tags None (record_call (Print bandwidth_hint) w0) =
           (case upload_and_tag fs d (netloc input)
                   (training_target_prefix (training_prefix_path prefix_path d) d)
                   (\<lambda>e. ''Error '' @ str_exn e @ '' uploading to s3'')
                   (''Found s3://'' @ path input @ ''/'' @
                    training_target_prefix (training_prefix_path prefix_path d) d @
                    '' ...skipping upload'')
                   tags w of
              (Some e, w') \<Rightarrow> (Some e, training_prefix_path prefix_path d, w')
            | (None, w') \<Rightarrow>
                training_data_loop fs ds input tags (training_prefix_path prefix_path d) w')"
  using assms by (simp add: training_data_loop_append Let_def)

lemma video_data_raises:
  assumes "video_data fs us input_s3 tags w0 = (None, w)"
    and "upload_and_tag fs v (netloc input_s3) (video_target_prefix input_s3 v)
           (\<lambda>e. ''error in uploading to s3'')
           (''Found s3://'' @ netloc input_s3 @ ''/'' @ video_target_prefix input_s3 v @
            '' ...skipping upload'')
           tags w = (Some e, w')"
  shows "video_data fs (us @ v # vs) input_s3 tags w0 = (Some e, w')"
  using assms(2) by (simp add: video_data_at [OF assms(1)])

lemma video_data_goes_on:
  assumes "video_data fs us input_s3 tags w0 = (None, w)"
    and "upload_and_tag fs v (netloc input_s3) (video_target_prefix input_s3 v)
           (\<lambda>e. ''error in uploading to s3'')
           (''Found s3://'' @ netloc input_s3 @ ''/'' @ video_target_prefix input_s3 v @
            '' ...skipping upload'')
           tags w = (None, w')"
  shows "video_data fs (us @ v # vs) input_s3 tags w0 = video_data_loop fs vs input_s3 tags w'"
  using assms(2) by (simp add: video_data_at [OF assms(1)])

lemma training_data_raises:
  assumes "training_data_loop fs us input tags None (record_call (Print bandwidth_hint) w0) =
             (None, prefix_path, w)"
    and "upload_and_tag fs d (netloc input)
           (training_target_prefix (training_prefix_path prefix_path d) d)
           (\<lambda>e. ''Error '' @ str_exn e @ '' uploading to s3'')
           (''Found s3://'' @ path input @ ''/'' @
            training_target_prefix (training_prefix_path prefix_path d) d @
            '' ...skipping upload'')
           tags w = (Some e, w')"
  shows "training_data bucket_size fs (us @ d # ds) input tags w0 = (Inl e, w')"
  using assms(2) by (simp add: training_data_def training_data_loop_at [OF assms(1)])

lemma training_data_goes_on:
  assumes "training_data_loop fs us input tags None (record_call (Print bandwidth_hint) w0) =
             (None, prefix_path, w)"
    and "upload_and_tag fs d (netloc input)
           (training_target_prefix (training_prefix_path prefix_path d) d)
           (\<lambda>e. ''Error '' @ str_exn e @ '' uploading to s3'')
           (''Found s3://'' @ path input @ ''/'' @
            training_target_prefix (training_prefix_path prefix_path d) d @
            '' ...skipping upload'')
           tags w = (None, w')"
  shows "training_data_loop fs (us @ d # ds) input tags None
           (record_call (Print bandwidth_hint) w0) =
         training_data_loop fs ds input tags (training_prefix_path prefix_path d) w'"
  using assms(2) by (simp add: training_data_loop_at [OF assms(1)])

lemma mnt_video_posix: "as_posix mnt_video = ''/mnt/data/dive1/clip1.mp4''"
  by (simp add: mnt_video_def)

lemma mnt_video_target: "video_target_prefix demo_s3 mnt_video = ''/mnt/data/dive1/clip1.mp4''"
  by (simp add: video_target_prefix_def video_prefix_path_def mnt_video_def demo_s3_def split_def)

lemma demo_training_target:
  "training_prefix_path None demo_video = Some ''data/dive1''"
  "training_target_prefix (Some ''data/dive1'') demo_video = ''data/dive1/training/clip1.mp4''"
  by (simp_all add: training_prefix_path_def training_target_prefix_def str_opt_def
      default_training_prefix_def demo_video_def split_def lstrip_def)

text \<open>
  Claim C4, as the code has it. For the block shared by \<open>video_data\<close> and \<open>training_data\<close>:
  an error of the probe other than a 404 leaves the block as it is, after the probe
  alone. When the object is absent the probe's 404 is handled: the file is uploaded and
  tagged. An error raised by the transfer, or by opening the local file, is caught and
  reported by a printed line, and the block goes on to the tagging call (which then
  fails, as there is no object). An error of the tagging call leaves the block as it is,
  whether the object was just uploaded or found. For the two functions, at any file of
  the list that is reached: \<open>video_data\<close> runs the block with the printed line
  \<^verbatim>\<open>error in uploading to s3\<close>, \<open>training_data\<close> runs it with the line
  \<^verbatim>\<open>Error <error> uploading to s3\<close>; an exception that leaves the block leaves the
  function with the state the block left, nothing being done for the files that follow;
  otherwise the function goes on with the next file.
\<close>

theorem upload_and_tag_errors:
  "(faults w = Some e # rest \<and> \<not> is_404 (Some e) \<longrightarrow>
      upload_and_tag fs v bucket k error_line found_line tags w =
        (Some e, w\<lparr>faults := rest, calls := calls w @ [HeadObject bucket k]\<rparr>)) \<and>
   (objects w (bucket, k) = None \<and> faults w = None # None # None # rest \<and>
    fs (as_posix v) = Inr bytes \<longrightarrow>
      upload_and_tag fs v bucket k error_line found_line tags w =
        (None, w\<lparr>objects := (objects w)((bucket, k) \<mapsto> \<lparr>content = bytes, tagging = tags\<rparr>),
                 faults := rest,
                 calls := calls w @ [HeadObject bucket k, Print (uploading_line v bucket k),
                                     UploadFileobj bucket k, PutObjectTagging bucket k tags]\<rparr>)) \<and>
   (objects w (bucket, k) = None \<and> faults w = None # Some e # None # rest \<and>
    fs (as_posix v) = Inr bytes \<longrightarrow>
      upload_and_tag fs v bucket k error_line found_line tags w =
        (Some (ClientError ''NoSuchKey'' ''The specified key does not exist.''),
         w\<lparr>faults := rest,
           calls := calls w @ [HeadObject bucket k, Print (uploading_line v bucket k),
                               UploadFileobj bucket k, Print (error_line e),
                               PutObjectTagging bucket k tags]\<rparr>)) \<and>
   (objects w (bucket, k) = None \<and> faults w = None # None # rest \<and>
    fs (as_posix v) = Inl e \<longrightarrow>
      upload_and_tag fs v bucket k error_line found_line tags w =
        (Some (ClientError ''NoSuchKey'' ''The specified key does not exist.''),
         w\<lparr>faults := rest,
           calls := calls w @ [HeadObject bucket k, Print (error_line e),
                               PutObjectTagging bucket k tags]\<rparr>)) \<and>
   (objects w (bucket, k) = None \<and> faults w = None # None # Some e # rest \<and>
    fs (as_posix v) = Inr bytes \<longrightarrow>
      upload_and_tag fs v bucket k error_line found_line tags w =
        (Some e, w\<lparr>objects := (objects w)((bucket, k) \<mapsto> \<lparr>content = bytes, tagging = []\<rparr>),
                   faults := rest,
                   calls := calls w @ [HeadObject bucket k, Print (uploading_line v bucket k),
                                       UploadFileobj bucket k, PutObjectTagging bucket k tags]\<rparr>)) \<and>
   (objects w (bucket, k) = Some obj \<and> faults w = None # Some e # rest \<longrightarrow>
      upload_and_tag fs v bucket k error_line found_line tags w =
        (Some e, w\<lparr>faults := rest,
                   calls := calls w @ [HeadObject bucket k, Print found_line,
                                       PutObjectTagging bucket k tags]\<rparr>)) \<and>
   (video_data fs us input_s3 tags w0 = (None, w) \<and>
    upload_and_tag fs v (netloc input_s3) (video_target_prefix input_s3 v)
      (\<lambda>e. ''error in uploading to s3'')
      (''Found s3://'' @ netloc input_s3 @ ''/'' @ video_target_prefix input_s3 v @
       '' ...skipping upload'')
      tags w = (Some e, w') \<longrightarrow>
      video_data fs (us @ v # vs) input_s3 tags w0 = (Some e, w')) \<and>
   (video_data fs us input_s3 tags w0 = (None, w) \<and>
    upload_and_tag fs v (netloc input_s3) (video_target_prefix input_s3 v)
      (\<lambda>e. ''error in uploading to s3'')
      (''Found s3://'' @ netloc input_s3 @ ''/'' @ video_target_prefix input_s3 v @
       '' ...skipping upload'')
      tags w = (None, w') \<longrightarrow>
      video_data fs (us @ v # vs) input_s3 tags w0 = video_data_loop fs vs input_s3 tags w') \<and>
   (training_data_loop fs us input_s3 tags None (record_call (Print bandwidth_hint) w0) =
      (None, prefix_path, w) \<and>
    upload_and_tag fs v (netloc input_s3)
      (training_target_prefix (training_prefix_path prefix_path v) v)
      (\<lambda>e. ''Error '' @ str_exn e @ '' uploading to s3'')
      (''Found s3://'' @ path input_s3 @ ''/'' @
       training_target_prefix (training_prefix_path prefix_path v) v @ '' ...skipping upload'')
      tags w = (Some e, w') \<longrightarrow>
      training_data bucket_size fs (us @ v # vs) input_s3 tags w0 = (Inl e, w')) \<and>
   (training_data_loop fs us input_s3 tags None (record_call (Print bandwidth_hint) w0) =
      (None, prefix_path, w) \<and>
    upload_and_tag fs v (netloc input_s3)
      (training_target_prefix (training_prefix_path prefix_path v) v)
      (\<lambda>e. ''Error '' @ str_exn e @ '' uploading to s3'')
      (''Found s3://'' @ path input_s3 @ ''/'' @
       training_target_prefix (training_prefix_path prefix_path v) v @ '' ...skipping upload'')
      tags w = (None, w') \<longrightarrow>
      training_data_loop fs (us @ v # vs) input_s3 tags None
        (record_call (Print bandwidth_hint) w0) =
      training_data_loop fs vs input_s3 tags (training_prefix_path prefix_path v) w')"
  (is "?P \<and> ?U \<and> ?T \<and> ?O \<and> ?G \<and> ?F \<and> ?VR \<and> ?VG \<and> ?TR \<and> ?TG")
proof -
  have ?P using probe_error_propagates by blast
  moreover have ?U using not_found_uploads by blast
  moreover have ?T using upload_error_caught by blast
  moreover have ?O using open_error_caught by blast
  moreover have ?G using tagging_error_after_upload by blast
  moreover have ?F using tagging_error_when_found by blast
  moreover have ?VR using video_data_raises by blast
  moreover have ?VG using video_data_goes_on by blast
  moreover have ?TR using training_data_raises by blast
  moreover have ?TG using training_data_goes_on by blast
  ultimately show ?thesis by (intro conjI)
qed

text \<open>The theorem at a probe that is refused with code 403 and at a tagging call that
  fails after the upload, for the block; at a run of \<open>video_data\<close> over two files, the
  second of which cannot be opened; and at two runs of \<open>training_data\<close>, one where the
  transfer fails and one where the probe is refused.\<close>

theorem upload_and_tag_errors_witness:
  "video_data_body demo_files demo_s3 demo_tag_set demo_video
     (empty_world\<lparr>faults := [Some (ClientError ''403'' ''Forbidden'')]\<rparr>) =
     (Some (ClientError ''403'' ''Forbidden''),
      empty_world\<lparr>faults := [], calls := [HeadObject ''bucket'' ''data/dive1/clip1.mp4'']\<rparr>) \<and>
   video_data_body demo_files demo_s3 demo_tag_set demo_video
     (empty_world\<lparr>faults := [None, None, Some (ClientError ''500'' ''InternalError'')]\<rparr>) =
     (Some (ClientError ''500'' ''InternalError''),
      empty_world\<lparr>objects := [(''bucket'', ''data/dive1/clip1.mp4'') \<mapsto>
                                \<lparr>content = ''frames'', tagging = []\<rparr>],
                  faults := [],
                  calls := [HeadObject ''bucket'' ''data/dive1/clip1.mp4'',
                            Print (uploading_line demo_video ''bucket'' ''data/dive1/clip1.mp4''),
                            UploadFileobj ''bucket'' ''data/dive1/clip1.mp4'',
                            PutObjectTagging ''bucket'' ''data/dive1/clip1.mp4'' demo_tag_set]\<rparr>) \<and>
   video_data demo_files [demo_video, mnt_video] demo_s3 demo_tag_set
     (empty_world\<lparr>faults := [None, None, None, None, None]\<rparr>) =
     (Some (ClientError ''NoSuchKey'' ''The specified key does not exist.''),
      \<lparr>objects = [(''bucket'', ''data/dive1/clip1.mp4'') \<mapsto>
                    \<lparr>content = ''frames'', tagging = demo_tag_set\<rparr>],
       faults = [],
       calls = [Print bandwidth_hint,
                HeadObject ''bucket'' ''data/dive1/clip1.mp4'',
                Print (uploading_line demo_video ''bucket'' ''data/dive1/clip1.mp4''),
                UploadFileobj ''bucket'' ''data/dive1/clip1.mp4'',
                PutObjectTagging ''bucket'' ''data/dive1/clip1.mp4'' demo_tag_set,
                HeadObject ''bucket'' ''/mnt/data/dive1/clip1.mp4'',
                Print ''error in uploading to s3'',
                PutObjectTagging ''bucket'' ''/mnt/data/dive1/clip1.mp4'' demo_tag_set]\<rparr>) \<and>
   training_data three_gigabytes demo_files [demo_video] demo_s3 demo_tag_set
     (empty_world\<lparr>faults := [None, Some (OtherError ''connection reset''), None]\<rparr>) =
     (Inl (ClientError ''NoSuchKey'' ''The specified key does not exist.''),
      \<lparr>objects = Map.empty,
       faults = [],
       calls = [Print bandwidth_hint,
                HeadObject ''bucket'' ''data/dive1/training/clip1.mp4'',
                Print (uploading_line demo_video ''bucket'' ''data/dive1/training/clip1.mp4''),
                UploadFileobj ''bucket'' ''data/dive1/training/clip1.mp4'',
                Print ''Error connection reset uploading to s3'',
                PutObjectTagging ''bucket'' ''data/dive1/training/clip1.mp4'' demo_tag_set]\<rparr>) \<and>
   training_data three_gigabytes demo_files [demo_video] demo_s3 demo_tag_set
     (empty_world\<lparr>faults := [Some (ClientError ''403'' ''Forbidden'')]\<rparr>) =
     (Inl (ClientError ''403'' ''Forbidden''),
      \<lparr>objects = Map.empty,
       faults = [],
       calls = [Print bandwidth_hint,
                HeadObject ''bucket'' ''data/dive1/training/clip1.mp4'']\<rparr>)"
  (is "?A \<and> ?B \<and> ?C \<and> ?D \<and> ?E")
proof -
  let ?found = "''Found s3://'' @ netloc demo_s3 @ ''/'' @ video_target_prefix demo_s3 demo_video @
                '' ...skipping upload''"
  let ?w1 = "empty_world\<lparr>faults := [Some (ClientError ''403'' ''Forbidden'')]\<rparr>"
  let ?w2 = "empty_world\<lparr>faults := [None, None, Some (ClientError ''500'' ''InternalError'')]\<rparr>"
  have a: "faults ?w1 = Some (ClientError ''403'' ''Forbidden'') # [] \<and>
           \<not> is_404 (Some (ClientError ''403'' ''Forbidden''))"
    by (simp add: is_404_def)
  have b: "objects ?w2 (''bucket'', ''data/dive1/clip1.mp4'') = None \<and>
           faults ?w2 = None # None # Some (ClientError ''500'' ''InternalError'') # [] \<and>
           demo_files (as_posix demo_video) = Inr ''frames''"
    by (simp add: empty_world_def demo_files_def demo_video_posix)
  have 1: "upload_and_tag demo_files demo_video ''bucket'' ''data/dive1/clip1.mp4''
             (\<lambda>e. ''error in uploading to s3'') ?found demo_tag_set ?w1 =
           (Some (ClientError ''403'' ''Forbidden''),
            ?w1\<lparr>faults := [], calls := calls ?w1 @ [HeadObject ''bucket'' ''data/dive1/clip1.mp4'']\<rparr>)"
    using a upload_and_tag_errors [where w = ?w1 and e = "ClientError ''403'' ''Forbidden''"
        and rest = "[]" and fs = demo_files and v = demo_video and bucket = "''bucket''"
        and k = "''data/dive1/clip1.mp4''" and error_line = "\<lambda>e. ''error in uploading to s3''"
        and found_line = ?found and tags = demo_tag_set, THEN conjunct1]
    by simp
  have 2: "upload_and_tag demo_files demo_video ''bucket'' ''data/dive1/clip1.mp4''
             (\<lambda>e. ''error in uploading to s3'') ?found demo_tag_set ?w2 =
           (Some (ClientError ''500'' ''InternalError''),
            ?w2\<lparr>objects := (objects ?w2)((''bucket'', ''data/dive1/clip1.mp4'') \<mapsto>
                                \<lparr>content = ''frames'', tagging = []\<rparr>),
                 faults := [],
                 calls := calls ?w2 @
                   [HeadObject ''bucket'' ''data/dive1/clip1.mp4'',
                    Print (uploading_line demo_video ''bucket'' ''data/dive1/clip1.mp4''),
                    UploadFileobj ''bucket'' ''data/dive1/clip1.mp4'',
                    PutObjectTagging ''bucket'' ''data/dive1/clip1.mp4'' demo_tag_set]\<rparr>)"
    using b upload_and_tag_errors [where w = ?w2 and e = "ClientError ''500'' ''InternalError''"
        and rest = "[]" and fs = demo_files and v = demo_video and bucket = "''bucket''"
        and k = "''data/dive1/clip1.mp4''" and error_line = "\<lambda>e. ''error in uploading to s3''"
        and found_line = ?found and tags = demo_tag_set and bytes = "''frames''",
        THEN conjunct2, THEN conjunct2, THEN conjunct2, THEN conjunct2, THEN conjunct1]
    by simp
  from 1 2 have AB: "?A \<and> ?B"
    by (simp add: video_data_body_def demo_video_target) (simp add: demo_s3_def empty_world_def)

  (* two files, the second of which cannot be opened *)
  let ?k1 = "''data/dive1/clip1.mp4''"
  let ?k2 = "''/mnt/data/dive1/clip1.mp4''"
  let ?v0 = "empty_world\<lparr>faults := [None, None, None, None, None]\<rparr>"
  let ?V0 = "\<lparr>objects = Map.empty, faults = [None, None, None, None, None],
              calls = [Print bandwidth_hint]\<rparr>"
  let ?V1 = "\<lparr>objects = [(''bucket'', ?k1) \<mapsto> \<lparr>content = ''frames'', tagging = demo_tag_set\<rparr>],
              faults = [None, None],
              calls = [Print bandwidth_hint, HeadObject ''bucket'' ?k1,
                       Print (uploading_line demo_video ''bucket'' ?k1),
                       UploadFileobj ''bucket'' ?k1,
                       PutObjectTagging ''bucket'' ?k1 demo_tag_set]\<rparr>"
  let ?V2 = "\<lparr>objects = [(''bucket'', ?k1) \<mapsto> \<lparr>content = ''frames'', tagging = demo_tag_set\<rparr>],
              faults = [],
              calls = [Print bandwidth_hint, HeadObject ''bucket'' ?k1,
                       Print (uploading_line demo_video ''bucket'' ?k1),
                       UploadFileobj ''bucket'' ?k1,
                       PutObjectTagging ''bucket'' ?k1 demo_tag_set,
                       HeadObject ''bucket'' ?k2,
                       Print ''error in uploading to s3'',
                       PutObjectTagging ''bucket'' ?k2 demo_tag_set]\<rparr>"
  let ?line = "\<lambda>e::exn. ''error in uploading to s3''"
  let ?found1 = "''Found s3://'' @ netloc demo_s3 @ ''/'' @ video_target_prefix demo_s3 demo_video @
                 '' ...skipping upload''"
  let ?found2 = "''Found s3://'' @ netloc demo_s3 @ ''/'' @ video_target_prefix demo_s3 mnt_video @
                 '' ...skipping upload''"
  have c0: "video_data demo_files [] demo_s3 demo_tag_set ?v0 = (None, ?V0)"
    by (simp add: video_data_def record_call_def empty_world_def)
  have "objects ?V0 (''bucket'', ?k1) = None \<and> faults ?V0 = None # None # None # [None, None] \<and>
        demo_files (as_posix demo_video) = Inr ''frames''"
    by (simp add: demo_files_def demo_video_posix)
  with upload_and_tag_errors [where w = ?V0 and rest = "[None, None]" and fs = demo_files
      and v = demo_video and bucket = "''bucket''" and k = ?k1 and error_line = ?line
      and found_line = ?found1 and tags = demo_tag_set and bytes = "''frames''",
      THEN conjunct2, THEN conjunct1]
  have "upload_and_tag demo_files demo_video ''bucket'' ?k1 ?line ?found1 demo_tag_set ?V0 =
          (None, ?V1)"
    by simp
  then have c1: "upload_and_tag demo_files demo_video (netloc demo_s3)
                   (video_target_prefix demo_s3 demo_video) ?line ?found1 demo_tag_set ?V0 =
                 (None, ?V1)"
    by (simp add: demo_video_target) (simp add: demo_s3_def)
  from c0 c1 upload_and_tag_errors [where fs = demo_files and us = "[]" and ?input_s3.0 = demo_s3
      and tags = demo_tag_set and ?w0.0 = ?v0 and w = ?V0 and v = demo_video and w' = ?V1
      and vs = "[]",
      THEN conjunct2, THEN conjunct2, THEN conjunct2, THEN conjunct2, THEN conjunct2,
      THEN conjunct2, THEN conjunct2, THEN conjunct1]
  have c2: "video_data demo_files [demo_video] demo_s3 demo_tag_set ?v0 = (None, ?V1)"
    by simp
  have "objects ?V1 (''bucket'', ?k2) = None \<and> faults ?V1 = None # None # [] \<and>
        demo_files (as_posix mnt_video) = Inl (OSError ''[Errno 2] No such file or directory'')"
    by (simp add: demo_files_def mnt_video_posix)
  with upload_and_tag_errors [where w = ?V1 and rest = "[]" and fs = demo_files
      and v = mnt_video and bucket = "''bucket''" and k = ?k2 and error_line = ?line
      and found_line = ?found2 and tags = demo_tag_set
      and e = "OSError ''[Errno 2] No such file or directory''",
      THEN conjunct2, THEN conjunct2, THEN conjunct2, THEN conjunct1]
  have "upload_and_tag demo_files mnt_video ''bucket'' ?k2 ?line ?found2 demo_tag_set ?V1 =
          (Some (ClientError ''NoSuchKey'' ''The specified key does not exist.''), ?V2)"
    by simp
  then have c3: "upload_and_tag demo_files mnt_video (netloc demo_s3)
                   (video_target_prefix demo_s3 mnt_video) ?line ?found2 demo_tag_set ?V1 =
                 (Some (ClientError ''NoSuchKey'' ''The specified key does not exist.''), ?V2)"
    by (simp add: mnt_video_target) (simp add: demo_s3_def)
  from c2 c3 upload_and_tag_errors [where fs = demo_files and us = "[demo_video]"
      and ?input_s3.0 = demo_s3 and tags = demo_tag_set and ?w0.0 = ?v0 and w = ?V1
      and v = mnt_video and w' = ?V2 and vs = "[]"
      and e = "ClientError ''NoSuchKey'' ''The specified key does not exist.''",
      THEN conjunct2, THEN conjunct2, THEN conjunct2, THEN conjunct2, THEN conjunct2,
      THEN conjunct2, THEN conjunct1]
  have C: ?C
    by simp

  (* training_data: the transfer fails; the probe is refused *)
  let ?t = "''data/dive1/training/clip1.mp4''"
  let ?tline = "\<lambda>e. ''Error '' @ str_exn e @ '' uploading to s3''"
  let ?tfound = "''Found s3://'' @ path demo_s3 @ ''/'' @
                 training_target_prefix (training_prefix_path None demo_video) demo_video @
                 '' ...skipping upload''"
  let ?d0 = "empty_world\<lparr>faults := [None, Some (OtherError ''connection reset''), None]\<rparr>"
  let ?Ta = "\<lparr>objects = Map.empty, faults = [None, Some (OtherError ''connection reset''), None],
              calls = [Print bandwidth_hint]\<rparr>"
  let ?Tb = "\<lparr>objects = Map.empty, faults = [],
              calls = [Print bandwidth_hint, HeadObject ''bucket'' ?t,
                       Print (uploading_line demo_video ''bucket'' ?t),
                       UploadFileobj ''bucket'' ?t,
                       Print ''Error connection reset uploading to s3'',
                       PutObjectTagging ''bucket'' ?t demo_tag_set]\<rparr>"
  have d0: "training_data_loop demo_files [] demo_s3 demo_tag_set None
              (record_call (Print bandwidth_hint) ?d0) = (None, None, ?Ta)"
    by (simp add: record_call_def empty_world_def)
  have "objects ?Ta (''bucket'', ?t) = None \<and>
        faults ?Ta = None # Some (OtherError ''connection reset'') # None # [] \<and>
        demo_files (as_posix demo_video) = Inr ''frames''"
    by (simp add: demo_files_def demo_video_posix)
  with upload_and_tag_errors [where w = ?Ta and rest = "[]" and fs = demo_files
      and v = demo_video and bucket = "''bucket''" and k = ?t and error_line = ?tline
      and found_line = ?tfound and tags = demo_tag_set and bytes = "''frames''"
      and e = "OtherError ''connection reset''",
      THEN conjunct2, THEN conjunct2, THEN conjunct1]
  have "upload_and_tag demo_files demo_video ''bucket'' ?t ?tline ?tfound demo_tag_set ?Ta =
          (Some (ClientError ''NoSuchKey'' ''The specified key does not exist.''), ?Tb)"
    by simp
  then have d1: "upload_and_tag demo_files demo_video (netloc demo_s3)
                   (training_target_prefix (training_prefix_path None demo_video) demo_video)
                   ?tline ?tfound demo_tag_set ?Ta =
                 (Some (ClientError ''NoSuchKey'' ''The specified key does not exist.''), ?Tb)"
    by (simp add: demo_training_target) (simp add: demo_s3_def)
  from d0 d1 upload_and_tag_errors [where fs = demo_files and us = "[]"
      and ?input_s3.0 = demo_s3 and tags = demo_tag_set and ?w0.0 = ?d0 and w = ?Ta
      and prefix_path = None and v = demo_video and w' = ?Tb and vs = "[]"
      and bucket_size = three_gigabytes
      and e = "ClientError ''NoSuchKey'' ''The specified key does not exist.''",
      THEN conjunct2, THEN conjunct2, THEN conjunct2, THEN conjunct2, THEN conjunct2,
      THEN conjunct2, THEN conjunct2, THEN conjunct2, THEN conjunct1]
  have D: ?D
    by simp

  let ?e0 = "empty_world\<lparr>faults := [Some (ClientError ''403'' ''Forbidden'')]\<rparr>"
  let ?Pa = "\<lparr>objects = Map.empty, faults = [Some (ClientError ''403'' ''Forbidden'')],
              calls = [Print bandwidth_hint]\<rparr>"
  let ?Pb = "\<lparr>objects = Map.empty, faults = [],
              calls = [Print bandwidth_hint, HeadObject ''bucket'' ?t]\<rparr>"
  have e0: "training_data_loop demo_files [] demo_s3 demo_tag_set None
              (record_call (Print bandwidth_hint) ?e0) = (None, None, ?Pa)"
    by (simp add: record_call_def empty_world_def)
  have "faults ?Pa = Some (ClientError ''403'' ''Forbidden'') # [] \<and>
        \<not> is_404 (Some (ClientError ''403'' ''Forbidden''))"
    by (simp add: is_404_def)
  with upload_and_tag_errors [where w = ?Pa and rest = "[]" and fs = demo_files
      and v = demo_video and bucket = "''bucket''" and k = ?t and error_line = ?tline
      and found_line = ?tfound and tags = demo_tag_set
      and e = "ClientError ''403'' ''Forbidden''", THEN conjunct1]
  have "upload_and_tag demo_files demo_video ''bucket'' ?t ?tline ?tfound demo_tag_set ?Pa =
          (Some (ClientError ''403'' ''Forbidden''), ?Pb)"
    by simp
  then have e1: "upload_and_tag demo_files demo_video (netloc demo_s3)
                   (training_target_prefix (training_prefix_path None demo_video) demo_video)
                   ?tline ?tfound demo_tag_set ?Pa =
                 (Some (ClientError ''403'' ''Forbidden''), ?Pb)"
    by (simp add: demo_training_target) (simp add: demo_s3_def)
  from e0 e1 upload_and_tag_errors [where fs = demo_files and us = "[]"
      and ?input_s3.0 = demo_s3 and tags = demo_tag_set and ?w0.0 = ?e0 and w = ?Pa
      and prefix_path = None and v = demo_video and w' = ?Pb and vs = "[]"
      and bucket_size = three_gigabytes and e = "ClientError ''403'' ''Forbidden''",
      THEN conjunct2, THEN conjunct2, THEN conjunct2, THEN conjunct2, THEN conjunct2,
      THEN conjunct2, THEN conjunct2, THEN conjunct2, THEN conjunct1]
  have E: ?E
    by simp
  from AB C D E show ?thesis by (intro conjI) simp_all
qed

text \<open>
  The claim C4 as stated fails for the byte transfer: an error raised by
  \<^verbatim>\<open>upload_fileobj\<close> does not reach the caller of \<open>video_data\<close>. It is replaced by the
  printed line \<^verbatim>\<open>error in uploading to s3\<close>, and what the caller gets is the error of the
  tagging call that follows.
\<close>

theorem video_data_swallows_upload_error:
  "video_data demo_files [demo_video] demo_s3 demo_tag_set
     (empty_world\<lparr>faults := [None, Some (OtherError ''connection reset''), None]\<rparr>) =
     (Some (ClientError ''NoSuchKey'' ''The specified key does not exist.''),
      empty_world\<lparr>calls := [Print bandwidth_hint,
                             HeadObject ''bucket'' ''data/dive1/clip1.mp4'',
                             Print (uploading_line demo_video ''bucket'' ''data/dive1/clip1.mp4''),
                             UploadFileobj ''bucket'' ''data/dive1/clip1.mp4'',
                             Print ''error in uploading to s3'',
                             PutObjectTagging ''bucket'' ''data/dive1/clip1.mp4'' demo_tag_set]\<rparr>)"
proof -
  let ?w = "record_call (Print bandwidth_hint)
              (empty_world\<lparr>faults := [None, Some (OtherError ''connection reset''), None]\<rparr>)"
  have "objects ?w (''bucket'', ''data/dive1/clip1.mp4'') = None"
    and "faults ?w = None # Some (OtherError ''connection reset'') # None # []"
    and "demo_files (as_posix demo_video) = Inr ''frames''"
    by (simp_all add: record_call_def empty_world_def demo_files_def demo_video_posix)
  from upload_error_caught [where fs = demo_files and v = demo_video, OF this]
  show ?thesis
    by (simp add: video_data_def video_data_body_def demo_video_target)
       (simp add: demo_s3_def record_call_def empty_world_def)
qed


section \<open>Upload: the reported size\<close>

lemma demo_training_prefix:
  "training_prefix_path None demo_video = Some ''data/dive1''"
  by (simp add: training_prefix_path_def demo_video_def split_def lstrip_def)

text \<open>
  Claim C8 fails on the code. With three billion bytes under the destination prefix
  (3 GB), \<open>training_data\<close> returns 3000: the byte count is divided by \<^verbatim>\<open>1e6\<close>, which gives
  megabytes, while the docstring of the function promises the size in GB.
\<close>

theorem training_data_reports_megabytes:
  "fst (training_data three_gigabytes demo_files [demo_video] demo_s3 demo_tag_set empty_world) =
     Inr (\<lparr>netloc = ''bucket'', path = ''/data/dive1/training/''\<rparr>, 3000)"
proof -
  let ?w = "record_call (Print bandwidth_hint) empty_world"
  let ?k = "''data/dive1/training/clip1.mp4''"
  have k: "training_target_prefix (Some ''data/dive1'') demo_video = ?k"
    by (simp add: training_target_prefix_def str_opt_def default_training_prefix_def demo_video_def)
  have "objects ?w (''bucket'', ?k) = None" and "faults ?w = []"
    and "demo_files (as_posix demo_video) = Inr ''frames''"
    by (simp_all add: record_call_def empty_world_def demo_files_def demo_video_posix)
  then have "\<exists>w'. upload_and_tag demo_files demo_video ''bucket'' ?k
          (\<lambda>e. ''Error '' @ str_exn e @ '' uploading to s3'')
          (''Found s3://'' @ path demo_s3 @ ''/'' @ ?k @ '' ...skipping upload'')
          demo_tag_set ?w = (None, w')"
    by (simp add: upload_and_tag_def s3_load_def next_fault_def record_call_def try_upload_def
        s3_upload_fileobj_def s3_put_object_tagging_def)
  then obtain w' where "training_data_loop demo_files [demo_video] demo_s3 demo_tag_set None ?w =
      (None, Some ''data/dive1'', w')"
    by (auto simp: demo_training_prefix k Let_def) (auto simp: demo_s3_def)
  then show ?thesis
    by (simp add: training_data_def urlparse_s3_def str_opt_def default_training_prefix_def
        three_gigabytes_def round_div_def demo_s3_def)
qed



section \<open>Submission: the scripted job\<close>


lemma written_status_set_job_and_media:
  "List.map_filter written_status (set_job_and_media job_name processor videos st) =
     replicate (Suc (length videos)) st"
  by (induction videos) (simp_all add: set_job_and_media_def List.map_filter_simps)




lemma script_processor_run_events:
  assumes "prepare env parser model_s3 model_size reid_model_url volume_size_gb instance_type
             config_s3 save_vid conf_thres iou_thres tracker tags = Inr p"
    and "bucket_keys env (netloc input_s3) = Inr keys"
    and "run_raises env = None"
    and "describe env = Inr d"
  shows "script_processor_run env parser input_s3 output_s3 model_s3 model_size reid_model_url
           volume_size_gb instance_type config_s3 save_vid conf_thres iou_thres tracker tags =
         (let job_name = prep_base_job_name p;
              processor = last (split (prep_image_uri_ecr p) ''/'');
              videos = listed_videos input_s3 keys;
              started = ListObjects (netloc input_s3) (lstrip (path input_s3) ''/'') #
                        set_job_and_media job_name processor videos RUNNING @
                        [RunProcessor (prep_processor p)
                           (processor_run_call (package_root env) tracker (prep_arguments p)
                              input_s3 output_s3)]
          in if ProcessingJobStatus d = ''Failed'' then
               (case FailureReason d of
                  None \<Rightarrow> (started @ [DescribeJob, DescribeJob], Some (KeyError ''FailureReason''))
                | Some reason \<Rightarrow>
                    (started @ [DescribeJob, DescribeJob] @
                     set_job_and_media job_name processor videos FAILED,
                     Some (Exception (''Script processor failed for inputs '' @ s3_uri input_s3 @
                                      '': '' @ reason))))
             else (started @ [DescribeJob] @ set_job_and_media job_name processor videos SUCCESS,
                   None))"
  using assms
  by (simp add: script_processor_run_def run_and_record_def Let_def split: option.splits)

lemma script_order:
  assumes "prepare env parser model_s3 model_size reid_model_url volume_size_gb instance_type
             config_s3 save_vid conf_thres iou_thres tracker tags = Inr p"
    and "bucket_keys env (netloc input_s3) = Inr keys"
    and "run_raises env = None"
    and "describe env = Inr d"
    and "ProcessingJobStatus d = ''Failed'' \<longrightarrow> FailureReason d \<noteq> None"
  shows "\<exists>before rc after.
           fst (script_processor_run env parser input_s3 output_s3 model_s3 model_size
                  reid_model_url volume_size_gb instance_type config_s3 save_vid conf_thres
                  iou_thres tracker tags) =
             before @ [RunProcessor (prep_processor p) rc] @ DescribeJob # after \<and>
           List.map_filter written_status before =
             replicate (Suc (length (listed_videos input_s3 keys))) RUNNING \<and>
           List.map_filter written_status after =
             replicate (Suc (length (listed_videos input_s3 keys)))
               (if ProcessingJobStatus d = ''Failed'' then FAILED else SUCCESS)"
proof -
  let ?job = "prep_base_job_name p" and ?proc = "last (split (prep_image_uri_ecr p) ''/'')"
    and ?videos = "listed_videos input_s3 keys"
  let ?before = "ListObjects (netloc input_s3) (lstrip (path input_s3) ''/'') #
                 set_job_and_media ?job ?proc ?videos RUNNING"
  let ?rc = "processor_run_call (package_root env) tracker (prep_arguments p) input_s3 output_s3"
  let ?after = "if ProcessingJobStatus d = ''Failed''
                then DescribeJob # set_job_and_media ?job ?proc ?videos FAILED
                else set_job_and_media ?job ?proc ?videos SUCCESS"
  have "fst (script_processor_run env parser input_s3 output_s3 model_s3 model_size
                  reid_model_url volume_size_gb instance_type config_s3 save_vid conf_thres
                  iou_thres tracker tags) =
          ?before @ [RunProcessor (prep_processor p) ?rc] @ DescribeJob # ?after"
    using assms(5) by (auto simp: script_processor_run_events [OF assms(1-4)] Let_def)
  moreover have "List.map_filter written_status ?before = replicate (Suc (length ?videos)) RUNNING"
    using written_status_set_job_and_media [of ?job ?proc ?videos RUNNING]
    by (simp add: List.map_filter_simps)
  moreover have "List.map_filter written_status ?after =
      replicate (Suc (length ?videos)) (if ProcessingJobStatus d = ''Failed'' then FAILED else SUCCESS)"
    using written_status_set_job_and_media [of ?job ?proc ?videos FAILED]
      written_status_set_job_and_media [of ?job ?proc ?videos SUCCESS]
    by (simp add: List.map_filter_simps)
  ultimately show ?thesis by blast
qed

lemma demo_prepare:
  "prepare failed_job_env demo_aws_parser demo_model_s3 640 None 10 ''ml.g4dn.xlarge'' None False
     ''0.01'' ''0.1'' ''deepsort'' demo_tag_set = Inr demo_prepared"
proof -
  have size: "str_int 640 = ''640''"
    by (simp add: str_int_def str_nat_small str_nat_large digit_char_def del: str_nat.simps)
  have u: "get_username (caller_arn failed_job_env) = Inr ''dcline''"
    by (simp add: failed_job_env_def demo_username)
  have track: "config_call demo_aws_parser ''aws'' ''deepsort_track_config_s3'' =
      Inr ''s3://cfg/deep_sort.yaml''"
    and e1: "config_call demo_aws_parser ''aws'' ''deepsort_ecr'' = Inr ''mbari/deepsea-yolov5:1.1.2''"
    and e2: "config_call demo_aws_parser ''aws'' ''strongsort_ecr'' =
      Inr ''mbari/strongsort-yolov5:1.10.0''"
    by (simp_all add: demo_aws_parser_def config_call_def)
  have args: "processor_arguments (str_float failed_job_env) demo_aws_parser demo_model_s3 640 None
      None False ''0.01'' ''0.1'' ''deepsort'' =
      Inr [''dettrack'', ''--conf-thres=0.01'', ''--iou-thres=0.1'', ''--model-size=640'',
           ''--model-s3=s3://models/yolov5x/model.tar.gz'',
           ''--config-s3=s3://cfg/deep_sort.yaml'']"
    by (simp add: processor_arguments_def truthy_def track size demo_model_s3_def lstrip_def
        failed_job_env_def)
  have acct: "caller_account failed_job_env = Inr ''123456789012''"
    and region: "region_name failed_job_env = Some ''us-west-2''"
    and role: "get_role (SAGEMAKER_ROLE failed_job_env) demo_aws_parser =
      Inr ''arn:aws:iam::123456789012:role/sagemaker''"
    by (simp_all add: failed_job_env_def get_role_def)
  show ?thesis
    by (simp add: prepare_def u args acct e1 e2 role region str_opt_def Let_def demo_prepared_def
        demo_processor_def)
qed



lemma demo_listing:
  "listed_videos demo_input_s3 [''in/clip1.mp4'', ''in/clip2.mp4''] = [''/clip1.mp4'', ''/clip2.mp4'']"
  by (simp add: listed_videos_def demo_input_s3_def lstrip_def)


















section \<open>Submission: the queued job\<close>

lemma strftime_ignores_microsecond: "strftime (t\<lparr>microsecond := m\<rparr>) = strftime t"
  by (simp add: strftime_def)

lemma demo_now_text: "strftime demo_now = ''20231215T070509Z''"
  by (simp add: strftime_def demo_now_def pad2_def str_nat_small str_nat_large digit_char_def
      del: str_nat.simps)

lemma demo_video_name: "path_name demo_video = ''clip1.mp4''"
  by (simp add: demo_video_def)

lemma batch_run_events:
  assumes "res ''VIDEO_QUEUE'' = Some queue_name" and "res ''CLUSTER'' = Some cluster"
    and "queue_lookup env queue_name = None"
  shows "batch_run env res video_path job_name user_name clean conf_thres iou_thres =
         (case send_message env of
            Inl e \<Rightarrow>
              ([GetQueueByName queue_name,
                SendMessage queue_name
                  (json_dumps env
                     (message_dict (get_prefix env video_path) video_path job_name user_name clean
                        conf_thres iou_thres))
                  (cluster @ strftime (utcnow env))],
               Some e)
          | Inr message_id \<Rightarrow>
              ([GetQueueByName queue_name,
                SendMessage queue_name
                  (json_dumps env
                     (message_dict (get_prefix env video_path) video_path job_name user_name clean
                        conf_thres iou_thres))
                  (cluster @ strftime (utcnow env)),
                SetJob job_name cluster [path_name video_path] QUEUED,
                SetMedia job_name (path_name video_path) QUEUED],
               None))"
  using assms by (simp add: batch_run_def resource_def Let_def split: sum.splits)

text \<open>
  Claim C6. When the resources hold the video queue and the cluster, the queue is found
  and the message is accepted, \<open>batch_run\<close> publishes one message whose body is the
  serialised object with exactly the fields \<^verbatim>\<open>video\<close>, \<^verbatim>\<open>clean\<close> (the string \<^verbatim>\<open>True\<close> or
  \<^verbatim>\<open>False\<close>), \<^verbatim>\<open>user_name\<close>, \<^verbatim>\<open>job_name\<close>, \<^verbatim>\<open>conf_thres\<close> and \<^verbatim>\<open>iou_thres\<close>, with the
  values given by the caller, and whose group id is the cluster name followed by the
  UTC time stamp; it then marks the job and the video QUEUED and returns. The time
  stamp does not depend on the microseconds.
\<close>

theorem batch_run_message:
  "(res ''VIDEO_QUEUE'' = Some queue_name \<and> res ''CLUSTER'' = Some cluster \<and>
    queue_lookup env queue_name = None \<and> send_message env = Inr message_id \<longrightarrow>
      batch_run env res video_path job_name user_name clean conf_thres iou_thres =
        ([GetQueueByName queue_name,
          SendMessage queue_name
            (json_dumps env
               (JObject [(''video'', JString (get_prefix env video_path @ ''/'' @ path_name video_path)),
                         (''clean'', JString (if clean then ''True'' else ''False'')),
                         (''user_name'', JString user_name),
                         (''job_name'', JString job_name),
                         (''conf_thres'', JNumber conf_thres),
                         (''iou_thres'', JNumber iou_thres)]))
            (cluster @ strftime (utcnow env)),
          SetJob job_name cluster [path_name video_path] QUEUED,
          SetMedia job_name (path_name video_path) QUEUED],
         None)) \<and>
   strftime ((utcnow env)\<lparr>microsecond := m\<rparr>) = strftime (utcnow env)"
  by (simp add: batch_run_events message_dict_def strftime_ignores_microsecond)

text \<open>The theorem at the submission of \<^verbatim>\<open>clip1.mp4\<close> for the job \<^verbatim>\<open>DiveV1\<close> on \<^verbatim>\<open>demo-cluster\<close>.\<close>

theorem batch_run_message_witness:
  "batch_run demo_queue_env demo_resources demo_video ''DiveV1'' ''dcline'' True ''0.01'' ''0.1'' =
     ([GetQueueByName ''demo-video-q'',
       SendMessage ''demo-video-q'' (demo_dumps demo_message) ''demo-cluster20231215T070509Z'',
       SetJob ''DiveV1'' ''demo-cluster'' [''clip1.mp4''] QUEUED,
       SetMedia ''DiveV1'' ''clip1.mp4'' QUEUED],
      None)"
proof -
  have "demo_resources ''VIDEO_QUEUE'' = Some ''demo-video-q'' \<and>
        demo_resources ''CLUSTER'' = Some ''demo-cluster'' \<and>
        queue_lookup demo_queue_env ''demo-video-q'' = None \<and>
        send_message demo_queue_env = Inr (Some ''msg-1'')"
    by (simp add: demo_resources_def demo_queue_env_def)
  with batch_run_message [of demo_resources "''demo-video-q''" "''demo-cluster''" demo_queue_env
      "Some ''msg-1''" demo_video "''DiveV1''" "''dcline''" True "''0.01''" "''0.1''", THEN conjunct1]
  have "batch_run demo_queue_env demo_resources demo_video ''DiveV1'' ''dcline'' True ''0.01'' ''0.1'' =
        ([GetQueueByName ''demo-video-q'',
          SendMessage ''demo-video-q''
            (json_dumps demo_queue_env
               (JObject [(''video'', JString (get_prefix demo_queue_env demo_video @ ''/'' @
                                              path_name demo_video)),
                         (''clean'', JString (if True then ''True'' else ''False'')),
                         (''user_name'', JString ''dcline''),
                         (''job_name'', JString ''DiveV1''),
                         (''conf_thres'', JNumber ''0.01''),
                         (''iou_thres'', JNumber ''0.1'')]))
            (''demo-cluster'' @ strftime (utcnow demo_queue_env)),
          SetJob ''DiveV1'' ''demo-cluster'' [path_name demo_video] QUEUED,
          SetMedia ''DiveV1'' (path_name demo_video) QUEUED],
         None)"
    by blast
  moreover have "get_prefix demo_queue_env demo_video = ''data/dive1''"
    "json_dumps demo_queue_env = demo_dumps" "utcnow demo_queue_env = demo_now"
    "path_name demo_video = ''clip1.mp4''"
    by (simp_all add: demo_queue_env_def demo_video_def)
  ultimately show ?thesis
    by (simp add: demo_now_text demo_message_def)
qed

section \<open>Submission: the order of the status writes\<close>

text \<open>
  Claim C10, as the code has it. In the scripted strategy all RUNNING writes (the job
  and every listed video) come before the call of \<^verbatim>\<open>run\<close>, and all terminal writes come
  after the status of the job has been read. In the queued strategy the message is
  published first: the QUEUED writes follow \<^verbatim>\<open>send_message\<close>, and nothing is written
  when \<^verbatim>\<open>send_message\<close> raises.
\<close>

theorem status_writes_ordered:
  "(prepare env parser model_s3 model_size reid_model_url volume_size_gb instance_type config_s3
      save_vid conf_thres iou_thres tracker tags = Inr p \<and>
    bucket_keys env (netloc input_s3) = Inr keys \<and> run_raises env = None \<and>
    describe env = Inr d \<and> (ProcessingJobStatus d = ''Failed'' \<longrightarrow> FailureReason d \<noteq> None) \<longrightarrow>
      (\<exists>before rc after.
         fst (script_processor_run env parser input_s3 output_s3 model_s3 model_size
                reid_model_url volume_size_gb instance_type config_s3 save_vid conf_thres
                iou_thres tracker tags) =
           before @ [RunProcessor (prep_processor p) rc] @ DescribeJob # after \<and>
         List.map_filter written_status before =
           replicate (Suc (length (listed_videos input_s3 keys))) RUNNING \<and>
         List.map_filter written_status after =
           replicate (Suc (length (listed_videos input_s3 keys)))
             (if ProcessingJobStatus d = ''Failed'' then FAILED else SUCCESS))) \<and>
   (res ''VIDEO_QUEUE'' = Some queue_name \<and> res ''CLUSTER'' = Some cluster \<and>
    queue_lookup qenv queue_name = None \<longrightarrow>
      (\<exists>body group_id after.
         fst (batch_run qenv res video_path job_name user_name clean conf iou) =
           [GetQueueByName queue_name, SendMessage queue_name body group_id] @ after \<and>
         after = (case send_message qenv of
                    Inl e \<Rightarrow> []
                  | Inr message_id \<Rightarrow>
                      [SetJob job_name cluster [path_name video_path] QUEUED,
                       SetMedia job_name (path_name video_path) QUEUED])))"
proof (intro conjI impI)
  assume "prepare env parser model_s3 model_size reid_model_url volume_size_gb instance_type config_s3
      save_vid conf_thres iou_thres tracker tags = Inr p \<and>
    bucket_keys env (netloc input_s3) = Inr keys \<and> run_raises env = None \<and>
    describe env = Inr d \<and> (ProcessingJobStatus d = ''Failed'' \<longrightarrow> FailureReason d \<noteq> None)"
  then show "\<exists>before rc after.
         fst (script_processor_run env parser input_s3 output_s3 model_s3 model_size
                reid_model_url volume_size_gb instance_type config_s3 save_vid conf_thres
                iou_thres tracker tags) =
           before @ [RunProcessor (prep_processor p) rc] @ DescribeJob # after \<and>
         List.map_filter written_status before =
           replicate (Suc (length (listed_videos input_s3 keys))) RUNNING \<and>
         List.map_filter written_status after =
           replicate (Suc (length (listed_videos input_s3 keys)))
             (if ProcessingJobStatus d = ''Failed'' then FAILED else SUCCESS)"
    by (intro script_order) simp_all
next
  assume "res ''VIDEO_QUEUE'' = Some queue_name \<and> res ''CLUSTER'' = Some cluster \<and>
    queue_lookup qenv queue_name = None"
  then have "batch_run qenv res video_path job_name user_name clean conf iou =
         (case send_message qenv of
            Inl e \<Rightarrow>
              ([GetQueueByName queue_name,
                SendMessage queue_name
                  (json_dumps qenv
                     (message_dict (get_prefix qenv video_path) video_path job_name user_name clean
                        conf iou))
                  (cluster @ strftime (utcnow qenv))],
               Some e)
          | Inr message_id \<Rightarrow>
              ([GetQueueByName queue_name,
                SendMessage queue_name
                  (json_dumps qenv
                     (message_dict (get_prefix qenv video_path) video_path job_name user_name clean
                        conf iou))
                  (cluster @ strftime (utcnow qenv)),
                SetJob job_name cluster [path_name video_path] QUEUED,
                SetMedia job_name (path_name video_path) QUEUED],
               None))"
    by (intro batch_run_events) simp_all
  then show "\<exists>body group_id after.
         fst (batch_run qenv res video_path job_name user_name clean conf iou) =
           [GetQueueByName queue_name, SendMessage queue_name body group_id] @ after \<and>
         after = (case send_message qenv of
                    Inl e \<Rightarrow> []
                  | Inr message_id \<Rightarrow>
                      [SetJob job_name cluster [path_name video_path] QUEUED,
                       SetMedia job_name (path_name video_path) QUEUED])"
    by (cases "send_message qenv") simp_all
qed

text \<open>The theorem at a failing scripted job with two videos, and at a queued submission
  whose message is refused.\<close>

theorem status_writes_ordered_witness:
  "(\<exists>before rc after.
      fst (script_processor_run failed_job_env demo_aws_parser demo_input_s3 demo_output_s3
             demo_model_s3 640 None 10 ''ml.g4dn.xlarge'' None False ''0.01'' ''0.1'' ''deepsort''
             demo_tag_set) =
        before @ [RunProcessor demo_processor rc] @ DescribeJob # after \<and>
      List.map_filter written_status before = [RUNNING, RUNNING, RUNNING] \<and>
      List.map_filter written_status after = [FAILED, FAILED, FAILED]) \<and>
   (\<exists>body group_id.
      fst (batch_run failing_queue_env demo_resources demo_video ''DiveV1'' ''dcline'' True ''0.01''
             ''0.1'') =
        [GetQueueByName ''demo-video-q'', SendMessage ''demo-video-q'' body group_id])"
proof -
  have f: "prepare failed_job_env demo_aws_parser demo_model_s3 640 None 10 ''ml.g4dn.xlarge'' None
             False ''0.01'' ''0.1'' ''deepsort'' demo_tag_set = Inr demo_prepared \<and>
           bucket_keys failed_job_env (netloc demo_input_s3) = Inr [''in/clip1.mp4'', ''in/clip2.mp4''] \<and>
           run_raises failed_job_env = None \<and>
           describe failed_job_env =
             Inr \<lparr>ProcessingJobStatus = ''Failed'', FailureReason = Some ''OutOfMemory''\<rparr> \<and>
           (ProcessingJobStatus \<lparr>ProcessingJobStatus = ''Failed'', FailureReason = Some ''OutOfMemory''\<rparr> =
              ''Failed'' \<longrightarrow>
            FailureReason \<lparr>ProcessingJobStatus = ''Failed'', FailureReason = Some ''OutOfMemory''\<rparr> \<noteq>
              None)"
    by (simp add: demo_prepare) (simp add: failed_job_env_def)
  have q: "demo_resources ''VIDEO_QUEUE'' = Some ''demo-video-q'' \<and>
           demo_resources ''CLUSTER'' = Some ''demo-cluster'' \<and>
           queue_lookup failing_queue_env ''demo-video-q'' = None"
    by (simp add: demo_resources_def failing_queue_env_def demo_queue_env_def)
  note inst = status_writes_ordered [of failed_job_env demo_aws_parser demo_model_s3 640 None 10
      "''ml.g4dn.xlarge''" None False "''0.01''" "''0.1''" "''deepsort''" demo_tag_set demo_prepared
      demo_input_s3 "[''in/clip1.mp4'', ''in/clip2.mp4'']"
      "\<lparr>ProcessingJobStatus = ''Failed'', FailureReason = Some ''OutOfMemory''\<rparr>" demo_output_s3
      demo_resources "''demo-video-q''" "''demo-cluster''" failing_queue_env demo_video "''DiveV1''"
      "''dcline''" True "''0.01''" "''0.1''"]
  have 1: "\<exists>before rc after.
      fst (script_processor_run failed_job_env demo_aws_parser demo_input_s3 demo_output_s3
             demo_model_s3 640 None 10 ''ml.g4dn.xlarge'' None False ''0.01'' ''0.1'' ''deepsort''
             demo_tag_set) =
        before @ [RunProcessor demo_processor rc] @ DescribeJob # after \<and>
      List.map_filter written_status before = [RUNNING, RUNNING, RUNNING] \<and>
      List.map_filter written_status after = [FAILED, FAILED, FAILED]"
    using inst [THEN conjunct1, rule_format, OF f]
    by (simp add: demo_listing demo_prepared_def numeral_3_eq_3)
  have 2: "\<exists>body group_id.
      fst (batch_run failing_queue_env demo_resources demo_video ''DiveV1'' ''dcline'' True ''0.01''
             ''0.1'') =
        [GetQueueByName ''demo-video-q'', SendMessage ''demo-video-q'' body group_id]"
    using inst [THEN conjunct2, rule_format, OF q]
    by (simp add: failing_queue_env_def demo_queue_env_def)
  from 1 2 show ?thesis by (rule conjI)
qed

text \<open>
  The claim C10 as stated fails for the queued strategy: the first event after the
  queue lookup is the publishing of the message, and the QUEUED writes come after it;
  when the publishing fails, QUEUED is never written.
\<close>

theorem batch_run_publishes_before_QUEUED:
  "fst (batch_run demo_queue_env demo_resources demo_video ''DiveV1'' ''dcline'' True ''0.01'' ''0.1'') =
     [GetQueueByName ''demo-video-q'',
      SendMessage ''demo-video-q'' (demo_dumps demo_message) ''demo-cluster20231215T070509Z'',
      SetJob ''DiveV1'' ''demo-cluster'' [''clip1.mp4''] QUEUED,
      SetMedia ''DiveV1'' ''clip1.mp4'' QUEUED] \<and>
   fst (batch_run failing_queue_env demo_resources demo_video ''DiveV1'' ''dcline'' True ''0.01''
          ''0.1'') =
     [GetQueueByName ''demo-video-q'',
      SendMessage ''demo-video-q'' (demo_dumps demo_message) ''demo-cluster20231215T070509Z'']"
proof -
  have r: "demo_resources ''VIDEO_QUEUE'' = Some ''demo-video-q''"
    "demo_resources ''CLUSTER'' = Some ''demo-cluster''"
    by (simp_all add: demo_resources_def)
  have q: "queue_lookup demo_queue_env ''demo-video-q'' = None"
    "queue_lookup failing_queue_env ''demo-video-q'' = None"
    by (simp_all add: failing_queue_env_def demo_queue_env_def)
  have m: "message_dict ''data/dive1'' demo_video ''DiveV1'' ''dcline'' True ''0.01'' ''0.1'' =
      demo_message"
    by (simp add: message_dict_def demo_message_def demo_video_def)
  show ?thesis
    by (simp add: batch_run_events [OF r q(1)] batch_run_events [OF r q(2)])
       (simp add: failing_queue_env_def demo_queue_env_def demo_now_text m demo_video_name)
qed

end
